theory Spec2Isabelle
  imports Complex_Main "HOL-Library.Word" "HOL-Library.Log_Nat"
begin

section \<open>Shared data model\<close>

text \<open>
  Go's \<open>int32\<close> and \<open>int64\<close> are fixed-width two's complement integers whose arithmetic
  wraps around silently; they are words, read through \<open>sint\<close> where the source compares
  or prints them.
\<close>

type_synonym int32 = "32 word"
type_synonym int64 = "64 word"

text \<open>
  The verb \<open>%d\<close> of \<open>fmt.Sprintf\<close>: the decimal digits of the number, with a leading
  minus sign for a negative one.
\<close>

definition digit_char :: "nat \<Rightarrow> char" where
  "digit_char d = ''0123456789'' ! (d mod 10)"

function show_nat :: "nat \<Rightarrow> string" where
  "show_nat n = (if n < 10 then [digit_char n] else show_nat (n div 10) @ [digit_char (n mod 10)])"
  by pat_completeness auto
termination
  by (relation "measure (\<lambda>n. n)") auto

declare show_nat.simps [simp del]

definition fmt_d :: "int \<Rightarrow> string" where
  "fmt_d i = (if i < 0 then CHR ''-'' # show_nat (nat (- i)) else show_nat (nat i))"

text \<open>
  Errors of the three services. \<open>Unavailable\<close> is the error a gRPC client stub returns when
  the call could not be completed; the other constructors are the \<open>fmt.Errorf\<close> values of
  the source, with the arguments of their format strings.
\<close>

datatype error =
    Unavailable string
  | ProductNotFoundError string
  | OrderNotFoundError string
  | ReserveStockError string error
  | InsufficientStockError string string
  | PaymentProcessingError error
  | PaymentFailedError string

section \<open>\<open>float64\<close>\<close>

text \<open>
  Go's \<open>float64\<close> is IEEE 754 binary64: the finite values are the rationals m \<times> 2^e with
  \<bar>m\<bar> < 2^53 and -1074 \<le> e \<le> 971, next to the two infinities and NaN. The two zeros
  are one value here: no operation below tells them apart, and Go's \<open>==\<close> does not
  either. \<open>Finite r\<close> is a \<open>float64\<close> for the rationals r of that form; the constants
  and operations below return no other.
\<close>

datatype float64 = Finite rat | PosInf | NegInf | NaN

text \<open>Rounding to the nearest integer, a tie to the even one.\<close>

definition round_half_even :: "rat \<Rightarrow> int" where
  "round_half_even r =
     (let f = \<lfloor>r\<rfloor>; d = r - of_int f
      in if d < 1 / 2 then f
         else if 1 / 2 < d then f + 1
         else if even f then f else f + 1)"

text \<open>
  The binary exponent of a rational x that is not 0: the e with 2^e \<le> \<bar>x\<bar> < 2^(e+1),
  found from the bit lengths of numerator and denominator.
\<close>

definition ilog2 :: "rat \<Rightarrow> int" where
  "ilog2 x =
     (let (p, q) = quotient_of \<bar>x\<bar>; d = bitlen p - bitlen q
      in if 2 powi d \<le> \<bar>x\<bar> then d else d - 1)"

text \<open>
  The rounding every \<open>float64\<close> operation and every \<open>float64\<close> constant applies to its
  exact result (round to nearest, ties to even): 53 significant bits at the exponent of
  the value, the spacing 2^-1074 below 2^-1022, and an infinity when the rounded value
  reaches 2^1024.
\<close>

definition binary64_round :: "rat \<Rightarrow> float64" where
  "binary64_round x =
     (if x = 0 then Finite 0
      else let e = max (ilog2 x) (- 1022);
               ulp = 2 powi (e - 52);
               y = of_int (round_half_even (\<bar>x\<bar> / ulp)) * ulp
           in if 2 powi 1024 \<le> y then (if 0 < x then PosInf else NegInf)
              else Finite (sgn x * y))"

fun f64_add :: "float64 \<Rightarrow> float64 \<Rightarrow> float64" where
  "f64_add NaN y = NaN"
| "f64_add x NaN = NaN"
| "f64_add PosInf NegInf = NaN"
| "f64_add NegInf PosInf = NaN"
| "f64_add PosInf y = PosInf"
| "f64_add x PosInf = PosInf"
| "f64_add NegInf y = NegInf"
| "f64_add x NegInf = NegInf"
| "f64_add (Finite a) (Finite b) = binary64_round (a + b)"

fun f64_mul :: "float64 \<Rightarrow> float64 \<Rightarrow> float64" where
  "f64_mul NaN y = NaN"
| "f64_mul x NaN = NaN"
| "f64_mul (Finite a) (Finite b) = binary64_round (a * b)"
| "f64_mul (Finite a) PosInf = (if a = 0 then NaN else if 0 < a then PosInf else NegInf)"
| "f64_mul (Finite a) NegInf = (if a = 0 then NaN else if 0 < a then NegInf else PosInf)"
| "f64_mul PosInf (Finite b) = (if b = 0 then NaN else if 0 < b then PosInf else NegInf)"
| "f64_mul NegInf (Finite b) = (if b = 0 then NaN else if 0 < b then NegInf else PosInf)"
| "f64_mul PosInf PosInf = PosInf"
| "f64_mul PosInf NegInf = NegInf"
| "f64_mul NegInf PosInf = NegInf"
| "f64_mul NegInf NegInf = PosInf"

text \<open>The conversion \<open>float64(int32)\<close> is exact: an \<open>int32\<close> has fewer than 53 bits.\<close>

definition f64_of_int32 :: "int32 \<Rightarrow> float64" where
  "f64_of_int32 q = Finite (of_int (sint q))"

text \<open>
  The arithmetic of \<open>float64\<close> that \<open>CreateOrder\<close> uses: the zero value, addition,
  multiplication and the conversion \<open>float64(int32)\<close>. The model of \<open>CreateOrder\<close> takes
  them as a parameter; \<open>binary64_ops\<close> are the operations of the language, each rounding
  its own result (the Go compiler may fuse the multiplication and the addition of one
  statement into one rounding on some architectures; on amd64 it does not).
\<close>

record 'f float64_ops =
  f_zero :: 'f
  f_add :: "'f \<Rightarrow> 'f \<Rightarrow> 'f"
  f_mul :: "'f \<Rightarrow> 'f \<Rightarrow> 'f"
  f_of_int32 :: "int32 \<Rightarrow> 'f"

definition binary64_ops :: "float64 float64_ops" where
  "binary64_ops =
     \<lparr>f_zero = Finite 0, f_add = f64_add, f_mul = f64_mul, f_of_int32 = f64_of_int32\<rparr>"


section \<open>Inventory service (pkg/inventory/service.go)\<close>

record 'f Product =
  product_Id :: string
  product_Name :: string
  StockQuantity :: int32
  Price :: 'f

record ReserveStockResponse =
  reserve_Success :: bool
  reserve_Message :: string
  ReservedQuantity :: int32

record ReleaseStockResponse =
  release_Success :: bool
  release_Message :: string

text \<open>The product table of the service: \<open>map[string]*Product\<close>, guarded by one mutex.\<close>

type_synonym 'f products = "string \<rightharpoonup> 'f Product"

text \<open>
  The sample products of \<open>NewService\<close>. A price literal such as 999.99 is the
  \<open>float64\<close> nearest to the decimal.
\<close>

definition NewService_products :: "float64 products" where
  "NewService_products =
     [''product-1'' \<mapsto> \<lparr>product_Id = ''product-1'', product_Name = ''Laptop'',
                        StockQuantity = 50, Price = binary64_round (99999 / 100)\<rparr>,
      ''product-2'' \<mapsto> \<lparr>product_Id = ''product-2'', product_Name = ''Mouse'',
                        StockQuantity = 100, Price = binary64_round (2999 / 100)\<rparr>,
      ''product-3'' \<mapsto> \<lparr>product_Id = ''product-3'', product_Name = ''Keyboard'',
                        StockQuantity = 75, Price = binary64_round (7999 / 100)\<rparr>]"

text \<open>
  \<open>ReserveStock\<close> runs under the service's mutex, so it is one atomic step on the product
  table. The table holds pointers: the decrement of the product is visible in the table.
\<close>

definition ReserveStock ::
  "'f products \<Rightarrow> string \<Rightarrow> int32 \<Rightarrow> string \<Rightarrow> (error + ReserveStockResponse) \<times> 'f products" where
  "ReserveStock products productID quantity orderID =
     (case products productID of
        None \<Rightarrow>
          (Inr \<lparr>reserve_Success = False,
                reserve_Message = ''Product not found: '' @ productID,
                ReservedQuantity = 0\<rparr>, products)
      | Some product \<Rightarrow>
          if sint (StockQuantity product) < sint quantity
          then (Inr \<lparr>reserve_Success = False,
                     reserve_Message = ''Insufficient stock. Available: ''
                        @ fmt_d (sint (StockQuantity product))
                        @ '', Requested: '' @ fmt_d (sint quantity),
                     ReservedQuantity = 0\<rparr>, products)
          else (Inr \<lparr>reserve_Success = True,
                     reserve_Message = ''Stock reserved successfully'',
                     ReservedQuantity = quantity\<rparr>,
                products(productID \<mapsto>
                  product\<lparr>StockQuantity := StockQuantity product - quantity\<rparr>)))"

definition ReleaseStock ::
  "'f products \<Rightarrow> string \<Rightarrow> int32 \<Rightarrow> string \<Rightarrow> (error + ReleaseStockResponse) \<times> 'f products" where
  "ReleaseStock products productID quantity orderID =
     (case products productID of
        None \<Rightarrow>
          (Inr \<lparr>release_Success = False,
                release_Message = ''Product not found: '' @ productID\<rparr>, products)
      | Some product \<Rightarrow>
          (Inr \<lparr>release_Success = True,
                release_Message = ''Stock released successfully''\<rparr>,
           products(productID \<mapsto>
             product\<lparr>StockQuantity := StockQuantity product + quantity\<rparr>)))"

definition GetProductStock :: "'f products \<Rightarrow> string \<Rightarrow> error + 'f Product" where
  "GetProductStock products productID =
     (case products productID of
        None \<Rightarrow> Inl (ProductNotFoundError productID)
      | Some product \<Rightarrow> Inr product)"

text \<open>
  A history of calls on the ledger, for properties of every sequence of reservations
  and releases: the mutex makes each call one step, so concurrent calls are some
  sequence of steps.
\<close>

datatype ledger_call =
    Reserve string int32 string
  | Release string int32 string

fun call_quantity :: "ledger_call \<Rightarrow> int32" where
  "call_quantity (Reserve productID quantity orderID) = quantity"
| "call_quantity (Release productID quantity orderID) = quantity"

fun ledger_step :: "'f products \<Rightarrow> ledger_call \<Rightarrow> 'f products" where
  "ledger_step products (Reserve productID quantity orderID) =
     snd (ReserveStock products productID quantity orderID)"
| "ledger_step products (Release productID quantity orderID) =
     snd (ReleaseStock products productID quantity orderID)"

fun ledger_run :: "'f products \<Rightarrow> ledger_call list \<Rightarrow> 'f products" where
  "ledger_run products [] = products"
| "ledger_run products (c # cs) = ledger_run (ledger_step products c) cs"

text \<open>
  A release stays in range when the sum it stores does not pass the largest \<open>int32\<close>;
  checked along the history, at the table each call meets.
\<close>

fun release_in_range :: "'f products \<Rightarrow> ledger_call \<Rightarrow> bool" where
  "release_in_range products (Reserve productID quantity orderID) = True"
| "release_in_range products (Release productID quantity orderID) =
     (case products productID of
        None \<Rightarrow> True
      | Some product \<Rightarrow> sint (StockQuantity product) + sint quantity \<le> 2147483647)"

fun releases_in_range :: "'f products \<Rightarrow> ledger_call list \<Rightarrow> bool" where
  "releases_in_range products [] = True"
| "releases_in_range products (c # cs) =
     (release_in_range products c \<and> releases_in_range (ledger_step products c) cs)"

section \<open>Payment service (pkg/payment/service.go)\<close>

text \<open>
  Modelled from the spec: the generated enum \<open>paymentpb.PaymentStatus\<close> (pkg/pb) is not
  among the sources. The spec names SUCCESS and FAILED; a proto3 enum is an open
  \<open>int32\<close>, so every other number is a status too.
\<close>

datatype PaymentStatus =
    PAYMENT_STATUS_SUCCESS
  | PAYMENT_STATUS_FAILED
  | PAYMENT_STATUS_other int32

record 'f PaymentRequest =
  pay_OrderId :: string
  pay_CustomerId :: string
  Amount :: 'f
  Currency :: string
  PaymentMethod :: string

record PaymentResponse =
  PaymentId :: string
  pay_Status :: PaymentStatus
  pay_Message :: string
  TransactionId :: string

text \<open>
  What one call of \<open>ProcessPayment\<close> reads from outside: the fresh UUID, the clock in
  Unix seconds, and the draw of \<open>rand.Float32()\<close>, a fraction in [0, 1). The random
  sleep before the draw changes no value and is left out.
\<close>

record payment_env =
  payment_uuid :: string
  payment_unix :: int64
  rand_Float32 :: rat

text \<open>
  The source compares the draw with the constant 0.9 at type \<open>float32\<close>, that is with
  the nearest \<open>float32\<close>, 15099494 / 2^24.
\<close>

definition success_threshold :: rat where
  "success_threshold = 15099494 / 16777216"

definition ProcessPayment :: "payment_env \<Rightarrow> 'f PaymentRequest \<Rightarrow> error + PaymentResponse" where
  "ProcessPayment env req =
     (let paymentID = payment_uuid env;
          transactionID = ''txn_'' @ fmt_d (sint (payment_unix env));
          success = (rand_Float32 env < success_threshold)
      in if success
         then Inr \<lparr>PaymentId = paymentID,
                   pay_Status = PAYMENT_STATUS_SUCCESS,
                   pay_Message = ''Payment processed successfully'',
                   TransactionId = transactionID\<rparr>
         else Inr \<lparr>PaymentId = paymentID,
                   pay_Status = PAYMENT_STATUS_FAILED,
                   pay_Message = ''Payment declined by bank'',
                   TransactionId = transactionID\<rparr>)"

section \<open>Order service (pkg/order/service.go)\<close>

text \<open>
  Modelled from the spec: the generated enum \<open>orderpb.OrderStatus\<close> (pkg/pb) is not among
  the sources. The spec names PENDING, PROCESSING, COMPLETED and CANCELLED; a proto3 enum
  is an open \<open>int32\<close>, so every other number is a status too.
\<close>

datatype OrderStatus =
    ORDER_STATUS_PENDING
  | ORDER_STATUS_PROCESSING
  | ORDER_STATUS_COMPLETED
  | ORDER_STATUS_CANCELLED
  | ORDER_STATUS_other int32

record 'f OrderItem =
  ProductId :: string
  Quantity :: int32
  UnitPrice :: 'f

record 'f Order =
  order_Id :: string
  CustomerId :: string
  Items :: "'f OrderItem list"
  TotalAmount :: 'f
  order_Status :: OrderStatus
  CreatedAt :: string
  UpdatedAt :: string

type_synonym 'f orders = "string \<rightharpoonup> 'f Order"

text \<open>
  Modelled from the spec: the generated gRPC client stubs (pkg/pb) are not among the
  sources. A call through a stub either cannot be completed, and returns an error
  without reaching the service (the spec's transport/communication error), or returns
  what the service's method returns; the server handlers of cmd/ pass the service's
  result through unchanged.
\<close>

type_synonym rpc_fault = "string option"

definition inventoryClient_ReserveStock ::
  "rpc_fault \<Rightarrow> 'f products \<Rightarrow> string \<Rightarrow> int32 \<Rightarrow> string
     \<Rightarrow> (error + ReserveStockResponse) \<times> 'f products" where
  "inventoryClient_ReserveStock fault products productID quantity orderID =
     (case fault of
        Some cause \<Rightarrow> (Inl (Unavailable cause), products)
      | None \<Rightarrow> ReserveStock products productID quantity orderID)"

definition inventoryClient_ReleaseStock ::
  "rpc_fault \<Rightarrow> 'f products \<Rightarrow> string \<Rightarrow> int32 \<Rightarrow> string
     \<Rightarrow> (error + ReleaseStockResponse) \<times> 'f products" where
  "inventoryClient_ReleaseStock fault products productID quantity orderID =
     (case fault of
        Some cause \<Rightarrow> (Inl (Unavailable cause), products)
      | None \<Rightarrow> ReleaseStock products productID quantity orderID)"

definition paymentClient_ProcessPayment ::
  "rpc_fault \<Rightarrow> payment_env \<Rightarrow> 'f PaymentRequest \<Rightarrow> error + PaymentResponse" where
  "paymentClient_ProcessPayment fault env req =
     (case fault of
        Some cause \<Rightarrow> Inl (Unavailable cause)
      | None \<Rightarrow> ProcessPayment env req)"

text \<open>
  The state \<open>CreateOrder\<close> works on: the order table of the order service and, behind the
  inventory client, the product table of the inventory service.
\<close>

record 'f system =
  order_table :: "'f orders"
  product_table :: "'f products"

text \<open>
  What one call of \<open>CreateOrder\<close> reads from outside: the fresh UUID, the three readings
  of the clock (formatted as RFC 3339), the injected payment client, and for the i-th
  reservation and the i-th release whether the call can be completed.
\<close>

record 'f create_env =
  uuid_New :: string
  now_created :: string
  now_updated :: string
  now_processing :: string
  reserve_fault :: "nat \<Rightarrow> rpc_fault"
  paymentClient :: "'f PaymentRequest \<Rightarrow> error + PaymentResponse"
  release_fault :: "nat \<Rightarrow> rpc_fault"

text \<open>The first loop of \<open>CreateOrder\<close>: the running total, item by item.\<close>

fun total_loop :: "'f float64_ops \<Rightarrow> 'f \<Rightarrow> 'f OrderItem list \<Rightarrow> 'f" where
  "total_loop ops totalAmount [] = totalAmount"
| "total_loop ops totalAmount (item # items) =
     total_loop ops
       (f_add ops totalAmount (f_mul ops (UnitPrice item) (f_of_int32 ops (Quantity item))))
       items"



text \<open>
  The second loop: one reservation per item, in the order given; the first call that
  fails or is declined ends the loop, and \<open>CreateOrder\<close>, with its error.
\<close>

fun reserve_loop ::
  "(nat \<Rightarrow> rpc_fault) \<Rightarrow> string \<Rightarrow> nat \<Rightarrow> 'f OrderItem list \<Rightarrow> 'f products
     \<Rightarrow> error option \<times> 'f products" where
  "reserve_loop faults orderID i [] products = (None, products)"
| "reserve_loop faults orderID i (item # items) products =
     (case inventoryClient_ReserveStock (faults i) products
             (ProductId item) (Quantity item) orderID of
        (Inl err, products') \<Rightarrow> (Some (ReserveStockError (ProductId item) err), products')
      | (Inr reserveResp, products') \<Rightarrow>
          if \<not> reserve_Success reserveResp
          then (Some (InsufficientStockError (ProductId item) (reserve_Message reserveResp)),
                products')
          else reserve_loop faults orderID (Suc i) items products')"

text \<open>
  \<open>releaseStockForOrder\<close>: one release per item; an error of a call is logged and the
  loop goes on, the response is dropped.
\<close>

fun releaseStockForOrder ::
  "(nat \<Rightarrow> rpc_fault) \<Rightarrow> string \<Rightarrow> nat \<Rightarrow> 'f OrderItem list \<Rightarrow> 'f products \<Rightarrow> 'f products" where
  "releaseStockForOrder faults orderID i [] products = products"
| "releaseStockForOrder faults orderID i (item # items) products =
     releaseStockForOrder faults orderID (Suc i) items
       (snd (inventoryClient_ReleaseStock (faults i) products
               (ProductId item) (Quantity item) orderID))"

definition CreateOrder ::
  "'f float64_ops \<Rightarrow> 'f create_env \<Rightarrow> 'f system \<Rightarrow> string \<Rightarrow> 'f OrderItem list
     \<Rightarrow> (error + 'f Order) \<times> 'f system" where
  "CreateOrder ops env s customerID items =
     (let orderID = uuid_New env;
          totalAmount = total_loop ops (f_zero ops) items;
          order = \<lparr>order_Id = orderID, CustomerId = customerID, Items = items,
                   TotalAmount = totalAmount, order_Status = ORDER_STATUS_PENDING,
                   CreatedAt = now_created env, UpdatedAt = now_updated env\<rparr>
      in case reserve_loop (reserve_fault env) orderID 0 items (product_table s) of
           (Some err, products') \<Rightarrow> (Inl err, s\<lparr>product_table := products'\<rparr>)
         | (None, products') \<Rightarrow>
             (case paymentClient env
                     \<lparr>pay_OrderId = orderID, pay_CustomerId = customerID,
                      Amount = totalAmount, Currency = ''USD'',
                      PaymentMethod = ''credit_card''\<rparr> of
                Inl err \<Rightarrow>
                  (Inl (PaymentProcessingError err),
                   s\<lparr>product_table :=
                       releaseStockForOrder (release_fault env) orderID 0 items products'\<rparr>)
              | Inr paymentResp \<Rightarrow>
                  if pay_Status paymentResp \<noteq> PAYMENT_STATUS_SUCCESS
                  then (Inl (PaymentFailedError (pay_Message paymentResp)),
                        s\<lparr>product_table :=
                             releaseStockForOrder (release_fault env) orderID 0 items products'\<rparr>)
                  else (let order' = order\<lparr>order_Status := ORDER_STATUS_PROCESSING,
                                            UpdatedAt := now_processing env\<rparr>
                        in (Inr order',
                            s\<lparr>product_table := products',
                              order_table := (order_table s)(orderID \<mapsto> order')\<rparr>))))"

definition GetOrder :: "'f orders \<Rightarrow> string \<Rightarrow> error + 'f Order" where
  "GetOrder orders orderID =
     (case orders orderID of
        None \<Rightarrow> Inl (OrderNotFoundError orderID)
      | Some order \<Rightarrow> Inr order)"

text \<open>
  \<open>UpdateOrderStatus\<close> writes through the pointer held in the table; \<open>now\<close> is the reading
  of the clock it formats into \<open>UpdatedAt\<close>.
\<close>

definition UpdateOrderStatus ::
  "string \<Rightarrow> 'f orders \<Rightarrow> string \<Rightarrow> OrderStatus \<Rightarrow> (error + 'f Order) \<times> 'f orders" where
  "UpdateOrderStatus now orders orderID status =
     (case orders orderID of
        None \<Rightarrow> (Inl (OrderNotFoundError orderID), orders)
      | Some order \<Rightarrow>
          (let order' = order\<lparr>order_Status := status, UpdatedAt := now\<rparr>
           in (Inr order', orders(orderID \<mapsto> order'))))"

text \<open>
  The quantity the items of an order ask of one product, added up in \<open>int32\<close>: what the
  reservations of the order take from the product's stock and its releases give back.
\<close>

definition reserved_total :: "'f OrderItem list \<Rightarrow> string \<Rightarrow> int32" where
  "reserved_total items productID =
     sum_list (map Quantity (filter (\<lambda>item. ProductId item = productID) items))"

text \<open>
  The quantity the release loop fails to give back to one product: the quantities of the
  items of that product whose release call, the i-th, the (i+1)-th and so on, was not
  delivered.
\<close>

fun unreleased_total :: "(nat \<Rightarrow> rpc_fault) \<Rightarrow> nat \<Rightarrow> 'f OrderItem list \<Rightarrow> string \<Rightarrow> int32" where
  "unreleased_total faults i [] productID = 0"
| "unreleased_total faults i (item # items) productID =
     (if ProductId item = productID \<and> faults i \<noteq> None then Quantity item else 0)
       + unreleased_total faults (Suc i) items productID"

section \<open>Sample calls\<close>

text \<open>
  The order of cmd/test-client/main.go (two laptops and a mouse for customer-123), an
  order that asks for more mice than there are, the scenario of one line item, and three
  units at the unit price 0.1. The environments fix the identifiers and the clock, and
  leave open the draw of the payment service and the fate of the release calls (all
  delivered, none, or all but the first); the system starts with the sample products and
  no order.
\<close>

definition test_items :: "float64 OrderItem list" where
  "test_items =
     [\<lparr>ProductId = ''product-1'', Quantity = 2, UnitPrice = binary64_round (99999 / 100)\<rparr>,
      \<lparr>ProductId = ''product-2'', Quantity = 1, UnitPrice = binary64_round (2999 / 100)\<rparr>]"

definition oversized_items :: "float64 OrderItem list" where
  "oversized_items =
     [\<lparr>ProductId = ''product-1'', Quantity = 2, UnitPrice = binary64_round (99999 / 100)\<rparr>,
      \<lparr>ProductId = ''product-2'', Quantity = 1000, UnitPrice = binary64_round (2999 / 100)\<rparr>]"

definition laptop_items :: "float64 OrderItem list" where
  "laptop_items = [\<lparr>ProductId = ''product-1'', Quantity = 2, UnitPrice = binary64_round (99999 / 100)\<rparr>]"


definition delivered :: "nat \<Rightarrow> rpc_fault" where
  "delivered i = None"

definition deadline_exceeded :: "nat \<Rightarrow> rpc_fault" where
  "deadline_exceeded i = Some ''context deadline exceeded''"

definition first_lost :: "nat \<Rightarrow> rpc_fault" where
  "first_lost i = (if i = 0 then Some ''context deadline exceeded'' else None)"

definition test_env :: "rat \<Rightarrow> (nat \<Rightarrow> rpc_fault) \<Rightarrow> float64 create_env" where
  "test_env draw release_faults =
     \<lparr>uuid_New = ''order-1'',
      now_created = ''2024-01-01T00:00:00Z'',
      now_updated = ''2024-01-01T00:00:00Z'',
      now_processing = ''2024-01-01T00:00:01Z'',
      reserve_fault = delivered,
      paymentClient = paymentClient_ProcessPayment None
        \<lparr>payment_uuid = ''payment-1'', payment_unix = 1704067200, rand_Float32 = draw\<rparr>,
      release_fault = release_faults\<rparr>"

definition test_system :: "float64 system" where
  "test_system = \<lparr>order_table = Map.empty, product_table = NewService_products\<rparr>"

section \<open>Arithmetic of \<open>int32\<close>\<close>

lemma sint_int32_bounds: "- 2147483648 \<le> sint (a :: int32) \<and> sint a \<le> 2147483647"
  using sint_ge [of a] sint_lt [of a] by simp

lemma sint_sub_no_wrap:
  "- 2147483648 \<le> sint a - sint b \<Longrightarrow> sint a - sint b \<le> 2147483647
     \<Longrightarrow> sint (a - b :: int32) = sint a - sint b"
  by (simp add: sint_word_ariths signed_take_bit_int_eq_self)

lemma sint_add_no_wrap:
  "- 2147483648 \<le> sint a + sint b \<Longrightarrow> sint a + sint b \<le> 2147483647
     \<Longrightarrow> sint (a + b :: int32) = sint a + sint b"
  by (simp add: sint_word_ariths signed_take_bit_int_eq_self)

lemma sint_sub_of_nonneg:
  assumes "0 \<le> sint b" and "sint b \<le> sint (a :: int32)"
  shows "sint (a - b) = sint a - sint b"
proof -
  have "sint a \<le> 2147483647" using sint_int32_bounds [of a] by simp
  with assms show ?thesis by (intro sint_sub_no_wrap) linarith+
qed

text \<open>Beyond the range of \<open>int32\<close> a sum or a difference is off by 2^32.\<close>

lemma signed_take_bit_31_shift:
  "signed_take_bit 31 (k :: int) = signed_take_bit 31 (k - 4294967296)"
proof -
  have split: "k + 2147483648 = k - 2147483648 + 4294967296"
    by linarith
  have "(k + 2147483648) mod 4294967296 = (k - 2147483648) mod 4294967296"
    unfolding split by (rule mod_add_self2)
  then show ?thesis
    by (simp add: signed_take_bit_eq_take_bit_shift take_bit_eq_mod)
qed

lemma signed_take_bit_31_high:
  assumes "2147483647 < k" and "k < 6442450944"
  shows "signed_take_bit 31 (k :: int) = k - 4294967296"
proof -
  have "signed_take_bit 31 k = signed_take_bit 31 (k - 4294967296)"
    by (rule signed_take_bit_31_shift)
  also have "\<dots> = k - 4294967296"
    using assms by (intro signed_take_bit_int_eq_self) simp_all
  finally show ?thesis .
qed

lemma signed_take_bit_31_low:
  assumes "k < - 2147483648" and "- 6442450944 \<le> k"
  shows "signed_take_bit 31 (k :: int) = k + 4294967296"
proof -
  have "signed_take_bit 31 (k + 4294967296) = signed_take_bit 31 k"
    using signed_take_bit_31_shift [of "k + 4294967296"] by simp
  moreover have "signed_take_bit 31 (k + 4294967296) = k + 4294967296"
    using assms by (intro signed_take_bit_int_eq_self) simp_all
  ultimately show ?thesis by simp
qed

lemma sint_add_wrap_high:
  "2147483647 < sint a + sint b \<Longrightarrow> sint (a + b :: int32) = sint a + sint b - 4294967296"
  using sint_int32_bounds [of a] sint_int32_bounds [of b]
  by (simp add: sint_word_ariths signed_take_bit_31_high)

lemma sint_add_wrap_low:
  "sint a + sint b < - 2147483648 \<Longrightarrow> sint (a + b :: int32) = sint a + sint b + 4294967296"
  using sint_int32_bounds [of a] sint_int32_bounds [of b]
  by (simp add: sint_word_ariths signed_take_bit_31_low)

lemma sint_sub_wrap_high:
  "2147483647 < sint a - sint b \<Longrightarrow> sint (a - b :: int32) = sint a - sint b - 4294967296"
  using sint_int32_bounds [of a] sint_int32_bounds [of b]
  by (simp add: sint_word_ariths signed_take_bit_31_high)

section \<open>Arithmetic of \<open>float64\<close>\<close>

text \<open>
  The integer that \<open>round_half_even\<close> returns is within one half of its argument, and
  \<open>ilog2\<close> is the binary exponent of its argument.
\<close>

lemma round_half_even_nearest: "\<bar>of_int (round_half_even r) - r\<bar> \<le> 1 / 2"
proof -
  have "of_int \<lfloor>r\<rfloor> \<le> r" and "r < of_int \<lfloor>r\<rfloor> + 1"
    by linarith+
  then show ?thesis
    by (auto simp: round_half_even_def Let_def)
qed

lemma powi_bitlen_bounds:
  assumes "0 < p"
  shows "(2::rat) powi (bitlen p - 1) \<le> of_int p" and "of_int p < (2::rat) powi (bitlen p)"
proof -
  have b: "2 ^ nat (bitlen p - 1) \<le> p" "p < 2 ^ nat (bitlen p)"
    using bitlen_bounds [OF assms] by simp_all
  have pos: "1 \<le> bitlen p"
    using assms bitlen_eq_zero_iff [of p] bitlen_nonneg [of p] by linarith
  have "(2::rat) powi (bitlen p - 1) = 2 ^ nat (bitlen p - 1)"
    using pos by (simp add: power_int_def)
  also have "\<dots> = of_int (2 ^ nat (bitlen p - 1))" by simp
  also have "\<dots> \<le> of_int p" using b(1) by (simp only: of_int_le_iff)
  finally show "(2::rat) powi (bitlen p - 1) \<le> of_int p" .
  have "of_int p < (of_int (2 ^ nat (bitlen p)) :: rat)"
    using b(2) by (simp only: of_int_less_iff)
  also have "\<dots> = 2 ^ nat (bitlen p)" by simp
  also have "\<dots> = 2 powi (bitlen p)"
    using pos by (simp add: power_int_def)
  finally show "of_int p < (2::rat) powi (bitlen p)" .
qed

lemma ilog2_bounds:
  assumes "x \<noteq> 0"
  shows "2 powi (ilog2 x) \<le> \<bar>x\<bar> \<and> \<bar>x\<bar> < 2 powi (ilog2 x + 1)"
proof -
  obtain p q where pq: "quotient_of \<bar>x\<bar> = (p, q)"
    by (cases "quotient_of \<bar>x\<bar>")
  have q: "0 < q" using pq by (rule quotient_of_denom_pos)
  have x: "\<bar>x\<bar> = of_int p / of_int q" using pq by (rule quotient_of_div)
  have p: "0 < p"
  proof -
    have "0 < \<bar>x\<bar>" using assms by simp
    then have "0 < (of_int p :: rat) / of_int q" using x by simp
    with q show ?thesis by (simp add: zero_less_divide_iff)
  qed
  let ?d = "bitlen p - bitlen q"
  note P = powi_bitlen_bounds [OF p] and Q = powi_bitlen_bounds [OF q]
  have qpos: "(0::rat) < of_int q" using q by simp
  have upper: "\<bar>x\<bar> < 2 powi (?d + 1)"
  proof -
    have "of_int p < (2::rat) powi (bitlen p)" by (rule P(2))
    also have "\<dots> = 2 powi (?d + 1) * 2 powi (bitlen q - 1)"
      by (simp flip: power_int_add)
    also have "\<dots> \<le> 2 powi (?d + 1) * of_int q"
      using Q(1) by (intro mult_left_mono) simp_all
    finally show ?thesis using qpos by (simp add: x pos_divide_less_eq)
  qed
  have lower: "2 powi (?d - 1) < \<bar>x\<bar>"
  proof -
    have "2 powi (?d - 1) * of_int q < (2::rat) powi (?d - 1) * 2 powi (bitlen q)"
      using Q(2) by (intro mult_strict_left_mono) simp_all
    also have "\<dots> = 2 powi (bitlen p - 1)"
      by (simp flip: power_int_add)
    also have "\<dots> \<le> of_int p" by (rule P(1))
    finally show ?thesis using qpos by (simp add: x pos_less_divide_eq)
  qed
  show ?thesis
  proof (cases "2 powi ?d \<le> \<bar>x\<bar>")
    case True
    then have "ilog2 x = ?d" by (simp add: ilog2_def pq)
    with True upper show ?thesis by simp
  next
    case False
    then have "ilog2 x = ?d - 1" by (simp add: ilog2_def pq)
    with False lower show ?thesis by simp
  qed
qed



lemma ilog2_eqI:
  assumes "2 powi e \<le> \<bar>x\<bar>" and "\<bar>x\<bar> < 2 powi (e + 1)"
  shows "ilog2 x = e"
proof -
  have "(0::rat) < 2 powi e" by simp
  with assms(1) have "0 < \<bar>x\<bar>" by linarith
  then have "x \<noteq> 0" by simp
  from ilog2_bounds [OF this]
  have lo: "2 powi (ilog2 x) \<le> \<bar>x\<bar>" and hi: "\<bar>x\<bar> < 2 powi (ilog2 x + 1)" by simp_all
  have up: "(2::rat) powi (ilog2 x) < 2 powi (e + 1)" using lo assms(2) by linarith
  have a: "ilog2 x < e + 1"
  proof (rule ccontr)
    assume "\<not> ilog2 x < e + 1"
    then have "e + 1 \<le> ilog2 x" by simp
    then have "(2::rat) powi (e + 1) \<le> 2 powi (ilog2 x)"
      by (intro power_int_increasing) simp_all
    with up show False by linarith
  qed
  have down: "(2::rat) powi e < 2 powi (ilog2 x + 1)" using hi assms(1) by linarith
  have b: "e < ilog2 x + 1"
  proof (rule ccontr)
    assume "\<not> e < ilog2 x + 1"
    then have "ilog2 x + 1 \<le> e" by simp
    then have "(2::rat) powi (ilog2 x + 1) \<le> 2 powi e"
      by (intro power_int_increasing) simp_all
    with down show False by linarith
  qed
  from a b show ?thesis by linarith
qed

text \<open>
  The rounding is to a nearest value: a finite result is within half a unit in the last
  place of the number rounded. And it changes no value that is a \<open>float64\<close> already:
  m \<times> 2^k with \<bar>m\<bar> < 2^53, k \<ge> -1074, below 2^1024 in size.
\<close>

lemma binary64_round_nearest:
  assumes "binary64_round x = Finite r"
  shows "\<bar>r - x\<bar> \<le> 2 powi (max (ilog2 x) (- 1022) - 53)"
proof (cases "x = 0")
  case True
  with assms show ?thesis by (simp add: binary64_round_def)
next
  case False
  let ?ulp = "2 powi (max (ilog2 x) (- 1022) - 52) :: rat"
  let ?n = "round_half_even (\<bar>x\<bar> / ?ulp)"
  have ulp: "0 < ?ulp" by simp
  from assms False have r: "r = sgn x * (of_int ?n * ?ulp)"
    by (simp add: binary64_round_def Let_def split: if_splits)
  have "\<bar>r - x\<bar> = \<bar>sgn x * (of_int ?n * ?ulp - \<bar>x\<bar>)\<bar>"
    by (simp add: r right_diff_distrib sgn_mult_abs)
  also have "\<dots> = \<bar>of_int ?n * ?ulp - \<bar>x\<bar>\<bar>"
    using False by (simp add: abs_mult abs_sgn_eq)
  also have "\<dots> = \<bar>of_int ?n - \<bar>x\<bar> / ?ulp\<bar> * ?ulp"
  proof -
    have "of_int ?n * ?ulp - \<bar>x\<bar> = (of_int ?n - \<bar>x\<bar> / ?ulp) * ?ulp"
      using ulp by (simp add: left_diff_distrib)
    then show ?thesis using ulp by (simp only: abs_mult abs_of_pos)
  qed
  also have "\<dots> \<le> 1 / 2 * ?ulp"
    using round_half_even_nearest [of "\<bar>x\<bar> / ?ulp"] ulp
    by (intro mult_right_mono) simp_all
  also have "\<dots> = 2 powi (max (ilog2 x) (- 1022) - 53)"
  proof -
    have "(2 :: rat) powi ((max (ilog2 x) (- 1022) - 53) + 1)
            = 2 powi (max (ilog2 x) (- 1022) - 53) * 2 powi 1"
      by (rule power_int_add) simp
    moreover have "max (ilog2 x) (- 1022) - 53 + 1 = max (ilog2 x) (- 1022) - 52"
      by linarith
    ultimately have "?ulp = 2 powi (max (ilog2 x) (- 1022) - 53) * 2"
      by simp
    then show ?thesis by simp
  qed
  finally show ?thesis .
qed

lemma round_half_even_of_int [simp]: "round_half_even (of_int n) = n"
  by (simp add: round_half_even_def)

lemma binary64_round_representable:
  fixes m k :: int
  assumes m: "\<bar>m\<bar> < 2 ^ 53" and k: "- 1074 \<le> k"
    and range: "\<bar>of_int m * 2 powi k\<bar> < (2 :: rat) powi 1024"
  shows "binary64_round (of_int m * 2 powi k) = Finite (of_int m * 2 powi k)"
proof (cases "m = 0")
  case True
  then show ?thesis by (simp add: binary64_round_def)
next
  case False
  let ?x = "of_int m * 2 powi k :: rat"
  have x0: "?x \<noteq> 0" using False by simp
  let ?e = "max (ilog2 ?x) (- 1022)"
  have absx: "\<bar>?x\<bar> = of_int \<bar>m\<bar> * 2 powi k"
    by (simp add: abs_mult)
  have low: "2 powi (ilog2 ?x) \<le> \<bar>?x\<bar>"
    using ilog2_bounds [OF x0] by simp
  have "\<bar>?x\<bar> < 2 powi (53 + k)"
  proof -
    have "(of_int \<bar>m\<bar> :: rat) < of_int (2 ^ 53)"
      using m by (simp only: of_int_less_iff)
    then have "(of_int \<bar>m\<bar> :: rat) < 2 powi 53" by simp
    then have "of_int \<bar>m\<bar> * 2 powi k < (2 :: rat) powi 53 * 2 powi k"
      by (intro mult_strict_right_mono) simp_all
    then show ?thesis by (simp add: absx power_int_add)
  qed
  with low have "(2 :: rat) powi (ilog2 ?x) < 2 powi (53 + k)" by linarith
  then have "ilog2 ?x < 53 + k"
  proof -
    assume lt: "(2 :: rat) powi (ilog2 ?x) < 2 powi (53 + k)"
    show ?thesis
    proof (rule ccontr)
      assume "\<not> ilog2 ?x < 53 + k"
      then have "53 + k \<le> ilog2 ?x" by simp
      then have "(2 :: rat) powi (53 + k) \<le> 2 powi (ilog2 ?x)"
        by (intro power_int_increasing) simp_all
      with lt show False by linarith
    qed
  qed
  with k have d: "0 \<le> k - (?e - 52)" by simp
  define n where "n = \<bar>m\<bar> * 2 ^ nat (k - (?e - 52))"
  have "\<bar>?x\<bar> / 2 powi (?e - 52) = of_int \<bar>m\<bar> * 2 powi (k - (?e - 52))"
    by (simp add: absx power_int_diff)
  also have "(2 :: rat) powi (k - (?e - 52)) = 2 ^ nat (k - (?e - 52))"
    using d by (simp add: power_int_def)
  finally have q: "\<bar>?x\<bar> / 2 powi (?e - 52) = of_int n"
    by (simp add: n_def)
  have y: "of_int (round_half_even (\<bar>?x\<bar> / 2 powi (?e - 52))) * 2 powi (?e - 52) = \<bar>?x\<bar>"
  proof -
    have "of_int (round_half_even (\<bar>?x\<bar> / 2 powi (?e - 52))) * 2 powi (?e - 52)
            = \<bar>?x\<bar> / 2 powi (?e - 52) * 2 powi (?e - 52)"
      by (simp only: q round_half_even_of_int)
    also have "\<dots> = \<bar>?x\<bar>" by simp
    finally show ?thesis .
  qed
  have "sgn ?x * \<bar>?x\<bar> = ?x" by (simp add: sgn_mult_abs)
  then show ?thesis
    using x0 range y
    by (simp add: binary64_round_def Let_def del: of_int_abs abs_mult)
qed

lemma floor_numeral_div:
  "\<lfloor>(numeral a :: rat) / numeral b\<rfloor> = numeral a div numeral b"
  using floor_divide_of_int_eq [of "numeral a" "numeral b", where ?'a = rat] by simp

text \<open>
  The roundings of the sample calls: the constants 999.99, 1999.98 and 0.1, twice 999.99
  (exact), three times 0.1 (a tie between two neighbours, which goes to the even one,
  0.30000000000000004), and the sums with the zero total (exact).
\<close>

lemma round_laptop_price:
  "binary64_round (99999 / 100) = Finite (4398002530638889 / 4398046511104)"
proof -
  have "ilog2 (99999 / 100) = 9" by (rule ilog2_eqI) simp_all
  then show ?thesis
    by (simp add: binary64_round_def round_half_even_def Let_def floor_numeral_div)
qed

lemma round_twice_laptop_price:
  "binary64_round (4398002530638889 / 2199023255552)
     = Finite (4398002530638889 / 2199023255552)"
proof -
  have "ilog2 (4398002530638889 / 2199023255552) = 10" by (rule ilog2_eqI) simp_all
  then show ?thesis
    by (simp add: binary64_round_def round_half_even_def Let_def floor_numeral_div)
qed

lemma round_laptop_total:
  "binary64_round (99999 / 50) = Finite (4398002530638889 / 2199023255552)"
proof -
  have "ilog2 (99999 / 50) = 10" by (rule ilog2_eqI) simp_all
  then show ?thesis
    by (simp add: binary64_round_def round_half_even_def Let_def floor_numeral_div)
qed




section \<open>The ledger: reservation and release\<close>

text \<open>
  C3. Every call of \<open>ReserveStock\<close> returns a response and no error. For an absent
  product the response has success = false and the not-found message, and the table is
  unchanged. For a product with less stock than the quantity asked, the response has
  success = false and a message that prints the available and the requested figure, and
  the table is unchanged. Otherwise the stock is decremented by the quantity (in
  \<open>int32\<close>; without wrap-around for a quantity that is not negative) and the response
  has success = true and the quantity as reserved quantity.
\<close>

theorem ReserveStock_outcomes:
  "(products productID = None \<longrightarrow>
      ReserveStock products productID quantity orderID =
        (Inr \<lparr>reserve_Success = False,
              reserve_Message = ''Product not found: '' @ productID,
              ReservedQuantity = 0\<rparr>, products))
   \<and> (\<forall>product. products productID = Some product
         \<longrightarrow> sint (StockQuantity product) < sint quantity
         \<longrightarrow> ReserveStock products productID quantity orderID =
               (Inr \<lparr>reserve_Success = False,
                     reserve_Message = ''Insufficient stock. Available: ''
                        @ fmt_d (sint (StockQuantity product))
                        @ '', Requested: '' @ fmt_d (sint quantity),
                     ReservedQuantity = 0\<rparr>, products))
   \<and> (\<forall>product. products productID = Some product
         \<longrightarrow> sint quantity \<le> sint (StockQuantity product)
         \<longrightarrow> ReserveStock products productID quantity orderID =
               (Inr \<lparr>reserve_Success = True,
                     reserve_Message = ''Stock reserved successfully'',
                     ReservedQuantity = quantity\<rparr>,
                products(productID \<mapsto>
                  product\<lparr>StockQuantity := StockQuantity product - quantity\<rparr>))
             \<and> (0 \<le> sint quantity \<longrightarrow>
                  sint (StockQuantity product - quantity)
                    = sint (StockQuantity product) - sint quantity))"
  by (simp add: ReserveStock_def sint_sub_of_nonneg)

theorem ReserveStock_outcomes_witness:
  "NewService_products ''product-1'' = Some \<lparr>product_Id = ''product-1'', product_Name = ''Laptop'',
                        StockQuantity = 50, Price = binary64_round (99999 / 100)\<rparr>
   \<and> sint (2 :: int32) \<le> sint (50 :: int32)
   \<and> ReserveStock NewService_products ''product-1'' 2 ''o1'' =
       (Inr \<lparr>reserve_Success = True, reserve_Message = ''Stock reserved successfully'',
             ReservedQuantity = 2\<rparr>,
        NewService_products(''product-1'' \<mapsto>
          \<lparr>product_Id = ''product-1'', product_Name = ''Laptop'',
           StockQuantity = 48, Price = binary64_round (99999 / 100)\<rparr>))
   \<and> sint (1 :: int32) < sint (5 :: int32)
   \<and> ReserveStock
         [''P2'' \<mapsto> \<lparr>product_Id = ''P2'', product_Name = ''Mouse'',
                      StockQuantity = 1, Price = binary64_round (2999 / 100)\<rparr>] ''P2'' 5 ''o2'' =
       (Inr \<lparr>reserve_Success = False,
             reserve_Message = ''Insufficient stock. Available: 1, Requested: 5'',
             ReservedQuantity = 0\<rparr>,
        [''P2'' \<mapsto> \<lparr>product_Id = ''P2'', product_Name = ''Mouse'',
                     StockQuantity = 1, Price = binary64_round (2999 / 100)\<rparr>])
   \<and> NewService_products ''product-9'' = None
   \<and> ReserveStock NewService_products ''product-9'' 1 ''o3'' =
       (Inr \<lparr>reserve_Success = False, reserve_Message = ''Product not found: product-9'',
             ReservedQuantity = 0\<rparr>, NewService_products)"
  using ReserveStock_outcomes [of NewService_products "''product-1''" 2 "''o1''"]
    ReserveStock_outcomes [of "[''P2'' \<mapsto> \<lparr>product_Id = ''P2'', product_Name = ''Mouse'',
                      StockQuantity = 1, Price = binary64_round (2999 / 100)\<rparr>]" "''P2''" 5 "''o2''"]
    ReserveStock_outcomes [of NewService_products "''product-9''" 1 "''o3''"]
  by (simp add: NewService_products_def fmt_d_def show_nat.simps digit_char_def)

text \<open>
  C7, as amended. A call of \<open>ReleaseStock\<close> on an existing product stores the \<open>int32\<close>
  sum of the stock and the quantity, whatever was reserved before, and returns
  success = true: there is no clamp. While the sum stays within \<open>int32\<close> the stock goes
  up by exactly the quantity, so a release that was never reserved, a repeated or a
  larger one inflates the stock; a sum beyond 2147483647 wraps around to the sum less
  2^32. For an absent product the call returns success = false and the table is
  unchanged. Without the bound the claim fails: a release of 2147483647 units on the
  sample product with stock 50 succeeds and leaves the stock at -2147483599.
\<close>

theorem ReleaseStock_outcomes:
  "(products productID = None \<longrightarrow>
      ReleaseStock products productID quantity orderID =
        (Inr \<lparr>release_Success = False,
              release_Message = ''Product not found: '' @ productID\<rparr>, products))
   \<and> (\<forall>product. products productID = Some product
         \<longrightarrow> ReleaseStock products productID quantity orderID =
               (Inr \<lparr>release_Success = True,
                     release_Message = ''Stock released successfully''\<rparr>,
                products(productID \<mapsto>
                  product\<lparr>StockQuantity := StockQuantity product + quantity\<rparr>))
             \<and> snd (ReleaseStock (snd (ReleaseStock products productID quantity orderID))
                      productID quantity orderID) =
                 products(productID \<mapsto>
                   product\<lparr>StockQuantity := StockQuantity product + quantity + quantity\<rparr>)
             \<and> (- 2147483648 \<le> sint (StockQuantity product) + sint quantity
                  \<longrightarrow> sint (StockQuantity product) + sint quantity \<le> 2147483647
                  \<longrightarrow> sint (StockQuantity product + quantity)
                        = sint (StockQuantity product) + sint quantity)
             \<and> (2147483647 < sint (StockQuantity product) + sint quantity
                  \<longrightarrow> sint (StockQuantity product + quantity)
                        = sint (StockQuantity product) + sint quantity - 4294967296)
             \<and> (sint (StockQuantity product) + sint quantity < - 2147483648
                  \<longrightarrow> sint (StockQuantity product + quantity)
                        = sint (StockQuantity product) + sint quantity + 4294967296))"
  by (simp add: ReleaseStock_def sint_add_no_wrap sint_add_wrap_high sint_add_wrap_low)

theorem ReleaseStock_outcomes_witness:
  "NewService_products ''product-1'' = Some \<lparr>product_Id = ''product-1'', product_Name = ''Laptop'',
                        StockQuantity = 50, Price = binary64_round (99999 / 100)\<rparr>
   \<and> - 2147483648 \<le> sint (50 :: int32) + sint (1000 :: int32)
   \<and> sint (50 :: int32) + sint (1000 :: int32) \<le> 2147483647
   \<and> ReleaseStock NewService_products ''product-1'' 1000 ''o1'' =
       (Inr \<lparr>release_Success = True, release_Message = ''Stock released successfully''\<rparr>,
        NewService_products(''product-1'' \<mapsto>
          \<lparr>product_Id = ''product-1'', product_Name = ''Laptop'',
           StockQuantity = 1050, Price = binary64_round (99999 / 100)\<rparr>))
   \<and> sint (50 + 1000 :: int32) = 1050
   \<and> 2147483647 < sint (50 :: int32) + sint (2147483647 :: int32)
   \<and> sint (50 + 2147483647 :: int32) = 50 + 2147483647 - 4294967296
   \<and> [''P2'' \<mapsto> \<lparr>product_Id = ''P2'', product_Name = ''Mouse'',
                    StockQuantity = - 2147483648, Price = binary64_round (2999 / 100)\<rparr>] ''P2''
       = Some \<lparr>product_Id = ''P2'', product_Name = ''Mouse'',
                StockQuantity = - 2147483648, Price = binary64_round (2999 / 100)\<rparr>
   \<and> sint (- 2147483648 :: int32) + sint (- 1 :: int32) < - 2147483648
   \<and> sint (- 2147483648 + - 1 :: int32) = - 2147483648 + - 1 + 4294967296
   \<and> NewService_products ''product-9'' = None
   \<and> ReleaseStock NewService_products ''product-9'' 1 ''o3'' =
       (Inr \<lparr>release_Success = False, release_Message = ''Product not found: product-9''\<rparr>,
        NewService_products)"
  using ReleaseStock_outcomes [of NewService_products "''product-1''" 1000 "''o1''"]
    ReleaseStock_outcomes [of NewService_products "''product-1''" 2147483647 "''o1''"]
    ReleaseStock_outcomes
      [of "[''P2'' \<mapsto> \<lparr>product_Id = ''P2'', product_Name = ''Mouse'',
                    StockQuantity = - 2147483648, Price = binary64_round (2999 / 100)\<rparr>]"
          "''P2''" "- 1" "''o4''"]
    ReleaseStock_outcomes [of NewService_products "''product-9''" 1 "''o3''"]
  by (simp add: NewService_products_def)

theorem ReleaseStock_outcomes_counterexample:
  "sint (StockQuantity (the (NewService_products ''product-1''))) = 50
   \<and> sint (2147483647 :: int32) = 2147483647
   \<and> fst (ReleaseStock NewService_products ''product-1'' 2147483647 ''o1'') =
       Inr \<lparr>release_Success = True, release_Message = ''Stock released successfully''\<rparr>
   \<and> sint (StockQuantity (the (snd (ReleaseStock NewService_products ''product-1''
               2147483647 ''o1'') ''product-1''))) = - 2147483599"
  by (simp add: NewService_products_def ReleaseStock_def)

text \<open>
  C10, as amended. \<open>ReserveStock\<close> does not check that the quantity is positive: for an
  existing product with non-negative stock and a quantity q \<le> 0 the stock check does
  not trigger, the call returns success = true and stores the \<open>int32\<close> difference
  stock - q. While stock - q is at most 2147483647 that is the integer difference, so a
  negative q increases the stock; beyond it the difference wraps around to a negative
  stock. Without the bound the claim fails: q = -2147483648 on the sample product with
  stock 50 succeeds and leaves the stock at -2147483598.
\<close>

theorem ReserveStock_nonpositive_quantity:
  assumes "products productID = Some product"
    and "0 \<le> sint (StockQuantity product)"
    and "sint quantity \<le> 0"
  shows "ReserveStock products productID quantity orderID =
           (Inr \<lparr>reserve_Success = True,
                 reserve_Message = ''Stock reserved successfully'',
                 ReservedQuantity = quantity\<rparr>,
            products(productID \<mapsto>
              product\<lparr>StockQuantity := StockQuantity product - quantity\<rparr>))
         \<and> (sint (StockQuantity product) - sint quantity \<le> 2147483647 \<longrightarrow>
              sint (StockQuantity product - quantity)
                = sint (StockQuantity product) - sint quantity
              \<and> (sint quantity < 0 \<longrightarrow>
                   sint (StockQuantity product) < sint (StockQuantity product - quantity)))
         \<and> (2147483647 < sint (StockQuantity product) - sint quantity \<longrightarrow>
              sint (StockQuantity product - quantity)
                = sint (StockQuantity product) - sint quantity - 4294967296
              \<and> sint (StockQuantity product - quantity) < 0)"
proof -
  have "\<not> sint (StockQuantity product) < sint quantity"
    using assms by linarith
  then have "ReserveStock products productID quantity orderID =
           (Inr \<lparr>reserve_Success = True,
                 reserve_Message = ''Stock reserved successfully'',
                 ReservedQuantity = quantity\<rparr>,
            products(productID \<mapsto>
              product\<lparr>StockQuantity := StockQuantity product - quantity\<rparr>))"
    using assms(1) by (simp add: ReserveStock_def)
  moreover have "sint (StockQuantity product - quantity)
                = sint (StockQuantity product) - sint quantity"
    if "sint (StockQuantity product) - sint quantity \<le> 2147483647"
    using that assms(2,3) by (intro sint_sub_no_wrap) linarith+
  moreover have "sint (StockQuantity product - quantity)
                = sint (StockQuantity product) - sint quantity - 4294967296"
    if "2147483647 < sint (StockQuantity product) - sint quantity"
    using that by (rule sint_sub_wrap_high)
  moreover have "sint (StockQuantity product) - sint quantity - 4294967296 < 0"
    using sint_int32_bounds [of "StockQuantity product"] sint_int32_bounds [of quantity]
    by linarith
  ultimately show ?thesis by simp
qed

theorem ReserveStock_nonpositive_quantity_witness:
  "NewService_products ''product-1'' = Some \<lparr>product_Id = ''product-1'', product_Name = ''Laptop'',
                        StockQuantity = 50, Price = binary64_round (99999 / 100)\<rparr>
   \<and> 0 \<le> sint (50 :: int32) \<and> sint (- 5 :: int32) \<le> 0
   \<and> sint (50 :: int32) - sint (- 5 :: int32) \<le> 2147483647 \<and> sint (- 5 :: int32) < 0
   \<and> ReserveStock NewService_products ''product-1'' (- 5) ''o1'' =
       (Inr \<lparr>reserve_Success = True, reserve_Message = ''Stock reserved successfully'',
             ReservedQuantity = - 5\<rparr>,
        NewService_products(''product-1'' \<mapsto>
          \<lparr>product_Id = ''product-1'', product_Name = ''Laptop'',
           StockQuantity = 55, Price = binary64_round (99999 / 100)\<rparr>))
   \<and> sint (50 :: int32) < sint (50 - (- 5) :: int32)
   \<and> sint (- 2147483648 :: int32) \<le> 0
   \<and> 2147483647 < sint (50 :: int32) - sint (- 2147483648 :: int32)
   \<and> sint (50 - (- 2147483648) :: int32) = 50 - (- 2147483648) - 4294967296"
  using ReserveStock_nonpositive_quantity [of NewService_products "''product-1''"
     "\<lparr>product_Id = ''product-1'', product_Name = ''Laptop'',
                        StockQuantity = 50, Price = binary64_round (99999 / 100)\<rparr>" "- 5" "''o1''"]
    ReserveStock_nonpositive_quantity [of NewService_products "''product-1''"
     "\<lparr>product_Id = ''product-1'', product_Name = ''Laptop'',
                        StockQuantity = 50, Price = binary64_round (99999 / 100)\<rparr>"
     "- 2147483648" "''o1''"]
  by (simp add: NewService_products_def)

theorem ReserveStock_nonpositive_quantity_counterexample:
  "sint (StockQuantity (the (NewService_products ''product-1''))) = 50
   \<and> sint (- 2147483648 :: int32) = - 2147483648
   \<and> fst (ReserveStock NewService_products ''product-1'' (- 2147483648) ''o1'') =
       Inr \<lparr>reserve_Success = True, reserve_Message = ''Stock reserved successfully'',
            ReservedQuantity = - 2147483648\<rparr>
   \<and> sint (StockQuantity (the (snd (ReserveStock NewService_products ''product-1''
               (- 2147483648) ''o1'') ''product-1''))) = - 2147483598"
  by (simp add: NewService_products_def ReserveStock_def)

lemma ledger_step_nonneg:
  assumes inv: "\<forall>productID product. products productID = Some product
                  \<longrightarrow> 0 \<le> sint (StockQuantity product)"
    and pos: "0 < sint (call_quantity c)"
    and rng: "release_in_range products c"
  shows "\<forall>productID product. ledger_step products c productID = Some product
                  \<longrightarrow> 0 \<le> sint (StockQuantity product)"
proof (cases c)
  case (Reserve pid q oid)
  show ?thesis
  proof (cases "products pid")
    case None
    with Reserve inv show ?thesis by (simp add: ReserveStock_def)
  next
    case (Some p)
    show ?thesis
    proof (cases "sint (StockQuantity p) < sint q")
      case True
      with Reserve Some inv show ?thesis by (simp add: ReserveStock_def)
    next
      case False
      then have "sint (StockQuantity p - q) = sint (StockQuantity p) - sint q"
        using pos Reserve by (intro sint_sub_of_nonneg) simp_all
      with False have "0 \<le> sint (StockQuantity p - q)" by simp
      with Reserve Some False inv show ?thesis by (auto simp: ReserveStock_def)
    qed
  qed
next
  case (Release pid q oid)
  show ?thesis
  proof (cases "products pid")
    case None
    with Release inv show ?thesis by (simp add: ReleaseStock_def)
  next
    case (Some p)
    have p0: "0 \<le> sint (StockQuantity p)" using inv Some by blast
    have "sint (StockQuantity p) + sint q \<le> 2147483647"
      using rng Release Some by simp
    then have "sint (StockQuantity p + q) = sint (StockQuantity p) + sint q"
      using pos Release p0 by (intro sint_add_no_wrap) simp_all
    with p0 pos Release have "0 \<le> sint (StockQuantity p + q)" by simp
    with Release Some inv show ?thesis by (auto simp: ReleaseStock_def)
  qed
qed

text \<open>
  C4, as amended. In every history of \<open>ReserveStock\<close> and \<open>ReleaseStock\<close> calls with
  positive quantities in which no release takes a stock beyond the largest \<open>int32\<close>,
  2147483647, the stock of every product is at least 0 after every call, given that it
  was at the start. Without the bound the claim fails: the addition of \<open>ReleaseStock\<close>
  wraps around, and one release of 2147483647 units on the sample product with stock 50
  leaves a negative stock.
\<close>

theorem ledger_stock_nonneg:
  assumes "\<forall>productID product. products productID = Some product
             \<longrightarrow> 0 \<le> sint (StockQuantity product)"
    and "\<forall>c \<in> set calls. 0 < sint (call_quantity c)"
    and "releases_in_range products calls"
  shows "\<forall>n \<le> length calls. \<forall>productID product.
           ledger_run products (take n calls) productID = Some product
             \<longrightarrow> 0 \<le> sint (StockQuantity product)"
  using assms
proof (induction calls arbitrary: products)
  case Nil
  then show ?case by simp
next
  case (Cons c cs)
  have step: "\<forall>productID product. ledger_step products c productID = Some product
                  \<longrightarrow> 0 \<le> sint (StockQuantity product)"
    using Cons.prems by (intro ledger_step_nonneg) simp_all
  have rest: "\<forall>n \<le> length cs. \<forall>productID product.
           ledger_run (ledger_step products c) (take n cs) productID = Some product
             \<longrightarrow> 0 \<le> sint (StockQuantity product)"
    using Cons.prems step by (intro Cons.IH) simp_all
  show ?case
  proof (intro allI impI)
    fix n productID product
    assume n: "n \<le> length (c # cs)"
      and run: "ledger_run products (take n (c # cs)) productID = Some product"
    show "0 \<le> sint (StockQuantity product)"
    proof (cases n)
      case 0
      with run Cons.prems(1) show ?thesis by simp
    next
      case (Suc m)
      with n run rest show ?thesis by simp
    qed
  qed
qed

theorem ledger_stock_nonneg_witness:
  "sint (StockQuantity (the (NewService_products ''product-1''))) = 50
   \<and> sint (StockQuantity (the (NewService_products ''product-2''))) = 100
   \<and> sint (StockQuantity (the (NewService_products ''product-3''))) = 75
   \<and> 0 < sint (call_quantity (Reserve ''product-1'' 2 ''o1''))
   \<and> 0 < sint (call_quantity (Release ''product-1'' 2 ''o1''))
   \<and> 0 < sint (call_quantity (Release ''product-2'' 7 ''o2''))
   \<and> releases_in_range NewService_products
        [Reserve ''product-1'' 2 ''o1'', Release ''product-1'' 2 ''o1'',
         Release ''product-2'' 7 ''o2'']
   \<and> ledger_run NewService_products
         (take 1 [Reserve ''product-1'' 2 ''o1'', Release ''product-1'' 2 ''o1'',
                  Release ''product-2'' 7 ''o2'']) ''product-1''
       = Some \<lparr>product_Id = ''product-1'', product_Name = ''Laptop'',
                StockQuantity = 48, Price = binary64_round (99999 / 100)\<rparr>
   \<and> 0 \<le> sint (StockQuantity \<lparr>product_Id = ''product-1'', product_Name = ''Laptop'',
                StockQuantity = 48, Price = binary64_round (99999 / 100)\<rparr>)
   \<and> ledger_run NewService_products
         (take 3 [Reserve ''product-1'' 2 ''o1'', Release ''product-1'' 2 ''o1'',
                  Release ''product-2'' 7 ''o2'']) ''product-2''
       = Some \<lparr>product_Id = ''product-2'', product_Name = ''Mouse'',
                StockQuantity = 107, Price = binary64_round (2999 / 100)\<rparr>
   \<and> 0 \<le> sint (StockQuantity \<lparr>product_Id = ''product-2'', product_Name = ''Mouse'',
                StockQuantity = 107, Price = binary64_round (2999 / 100)\<rparr>)"
proof -
  have h1: "\<forall>productID product. NewService_products productID = Some product
             \<longrightarrow> 0 \<le> sint (StockQuantity product)"
    by (auto simp: NewService_products_def split: if_splits)
  have h2: "\<forall>c \<in> set [Reserve ''product-1'' 2 ''o1'', Release ''product-1'' 2 ''o1'',
                   Release ''product-2'' 7 ''o2'']. 0 < sint (call_quantity c)"
    by simp
  have h3: "releases_in_range NewService_products
        [Reserve ''product-1'' 2 ''o1'', Release ''product-1'' 2 ''o1'',
         Release ''product-2'' 7 ''o2'']"
    by (simp add: NewService_products_def ReserveStock_def ReleaseStock_def)
  have first: "ledger_run NewService_products
         (take 1 [Reserve ''product-1'' 2 ''o1'', Release ''product-1'' 2 ''o1'',
                  Release ''product-2'' 7 ''o2'']) ''product-1''
       = Some \<lparr>product_Id = ''product-1'', product_Name = ''Laptop'',
                StockQuantity = 48, Price = binary64_round (99999 / 100)\<rparr>"
    by (simp add: NewService_products_def ReserveStock_def)
  have last: "ledger_run NewService_products
         (take 3 [Reserve ''product-1'' 2 ''o1'', Release ''product-1'' 2 ''o1'',
                  Release ''product-2'' 7 ''o2'']) ''product-2''
       = Some \<lparr>product_Id = ''product-2'', product_Name = ''Mouse'',
                StockQuantity = 107, Price = binary64_round (2999 / 100)\<rparr>"
    by (simp add: NewService_products_def ReserveStock_def ReleaseStock_def)
  note inv = ledger_stock_nonneg [OF h1 h2 h3, rule_format]
  have "0 \<le> sint (StockQuantity \<lparr>product_Id = ''product-1'', product_Name = ''Laptop'',
                StockQuantity = 48, Price = binary64_round (99999 / 100)\<rparr>)"
    using first by (intro inv [of 1 "''product-1''"]) simp_all
  moreover have "0 \<le> sint (StockQuantity \<lparr>product_Id = ''product-2'', product_Name = ''Mouse'',
                StockQuantity = 107, Price = binary64_round (2999 / 100)\<rparr>)"
    using last by (intro inv [of 3 "''product-2''"]) simp_all
  moreover have "sint (StockQuantity (the (NewService_products ''product-1''))) = 50"
    and "sint (StockQuantity (the (NewService_products ''product-2''))) = 100"
    and "sint (StockQuantity (the (NewService_products ''product-3''))) = 75"
    by (simp_all add: NewService_products_def)
  ultimately show ?thesis
    using h3 first last by simp
qed

theorem ledger_stock_nonneg_counterexample:
  "0 \<le> sint (StockQuantity (the (NewService_products ''product-1'')))
   \<and> 0 \<le> sint (StockQuantity (the (NewService_products ''product-2'')))
   \<and> 0 \<le> sint (StockQuantity (the (NewService_products ''product-3'')))
   \<and> 0 < sint (call_quantity (Release ''product-1'' 2147483647 ''o1''))
   \<and> sint (StockQuantity (the (ledger_run NewService_products
               [Release ''product-1'' 2147483647 ''o1''] ''product-1''))) = - 2147483599"
  by (simp add: NewService_products_def ReleaseStock_def)

section \<open>The orchestrator: reservation, payment, compensation\<close>

text \<open>
  The product table after the loops, product by product: a reservation loop that ran to
  its end has taken the quantities of the items, a release loop whose calls were all
  delivered has added them.
\<close>

lemma reserved_total_Nil [simp]: "reserved_total [] productID = 0"
  by (simp add: reserved_total_def)

lemma reserved_total_Cons:
  "reserved_total (item # items) productID =
     (if ProductId item = productID then Quantity item else 0) + reserved_total items productID"
  by (simp add: reserved_total_def)

lemma ReserveStock_success_table:
  assumes "ReserveStock products productID quantity orderID = (Inr resp, products')"
    and "reserve_Success resp"
  shows "products' pid =
           map_option (\<lambda>p. p\<lparr>StockQuantity :=
               StockQuantity p - (if productID = pid then quantity else 0)\<rparr>) (products pid)"
  using assms
  by (cases "products pid")
     (auto simp: ReserveStock_def option.map_ident split: option.splits if_splits)

lemma ReleaseStock_table:
  "snd (ReleaseStock products productID quantity orderID) pid =
     map_option (\<lambda>p. p\<lparr>StockQuantity :=
         StockQuantity p + (if productID = pid then quantity else 0)\<rparr>) (products pid)"
  by (cases "products pid") (auto simp: ReleaseStock_def split: option.splits)

lemma reserve_loop_None_table:
  "reserve_loop faults orderID i items products = (None, products') \<Longrightarrow>
     products' pid =
       map_option (\<lambda>p. p\<lparr>StockQuantity := StockQuantity p - reserved_total items pid\<rparr>)
         (products pid)"
proof (induction items arbitrary: products i)
  case Nil
  then show ?case by (cases "products pid") auto
next
  case (Cons item items)
  from Cons.prems obtain resp mid where
    call: "ReserveStock products (ProductId item) (Quantity item) orderID = (Inr resp, mid)"
    and ok: "reserve_Success resp"
    and rest: "reserve_loop faults orderID (Suc i) items mid = (None, products')"
    by (auto simp: inventoryClient_ReserveStock_def split: option.splits prod.splits sum.splits if_splits)
  have "products' pid =
       map_option (\<lambda>p. p\<lparr>StockQuantity := StockQuantity p - reserved_total items pid\<rparr>)
         (mid pid)"
    using rest by (rule Cons.IH)
  also have "mid pid = map_option (\<lambda>p. p\<lparr>StockQuantity :=
               StockQuantity p - (if ProductId item = pid then Quantity item else 0)\<rparr>) (products pid)"
    using call ok by (rule ReserveStock_success_table)
  finally show ?case
    by (cases "products pid") (simp_all add: reserved_total_Cons)
qed

lemma releaseStockForOrder_table:
  "\<forall>j < length items. faults (i + j) = None \<Longrightarrow>
     releaseStockForOrder faults orderID i items products pid =
       map_option (\<lambda>p. p\<lparr>StockQuantity := StockQuantity p + reserved_total items pid\<rparr>)
         (products pid)"
proof (induction items arbitrary: products i)
  case Nil
  then show ?case by (cases "products pid") auto
next
  case (Cons item items)
  have here: "faults i = None" using Cons.prems by force
  have later: "\<forall>j < length items. faults (Suc i + j) = None"
    using Cons.prems by force
  have "releaseStockForOrder faults orderID i (item # items) products pid =
          releaseStockForOrder faults orderID (Suc i) items
            (snd (ReleaseStock products (ProductId item) (Quantity item) orderID)) pid"
    using here by (simp add: inventoryClient_ReleaseStock_def)
  also have "\<dots> = map_option (\<lambda>p. p\<lparr>StockQuantity := StockQuantity p + reserved_total items pid\<rparr>)
         (snd (ReleaseStock products (ProductId item) (Quantity item) orderID) pid)"
    using later by (rule Cons.IH)
  finally show ?case
    by (cases "products pid") (simp_all add: ReleaseStock_table reserved_total_Cons)
qed

lemma release_after_reserve:
  assumes "reserve_loop faults orderID i items products = (None, products')"
    and "\<forall>j < length items. faults' (i' + j) = None"
  shows "releaseStockForOrder faults' orderID' i' items products' = products"
proof
  fix pid
  have "releaseStockForOrder faults' orderID' i' items products' pid =
       map_option (\<lambda>p. p\<lparr>StockQuantity := StockQuantity p + reserved_total items pid\<rparr>)
         (products' pid)"
    using assms(2) by (rule releaseStockForOrder_table)
  also have "products' pid = map_option (\<lambda>p. p\<lparr>StockQuantity := StockQuantity p - reserved_total items pid\<rparr>)
         (products pid)"
    using assms(1) by (rule reserve_loop_None_table)
  finally show "releaseStockForOrder faults' orderID' i' items products' pid = products pid"
    by (cases "products pid") simp_all
qed

lemma inventoryClient_ReleaseStock_table:
  "snd (inventoryClient_ReleaseStock fault products productID quantity orderID) pid =
     map_option (\<lambda>p. p\<lparr>StockQuantity :=
         StockQuantity p + (if productID = pid \<and> fault = None then quantity else 0)\<rparr>)
       (products pid)"
proof (cases fault)
  case None
  then show ?thesis
    by (cases "products pid") (simp_all add: inventoryClient_ReleaseStock_def ReleaseStock_table)
next
  case (Some cause)
  then show ?thesis
    by (cases "products pid") (simp_all add: inventoryClient_ReleaseStock_def)
qed

lemma releaseStockForOrder_stock:
  "releaseStockForOrder faults orderID i items products pid =
     map_option (\<lambda>p. p\<lparr>StockQuantity := StockQuantity p
         + (reserved_total items pid - unreleased_total faults i items pid)\<rparr>)
       (products pid)"
proof (induction items arbitrary: products i)
  case Nil
  then show ?case by (cases "products pid") auto
next
  case (Cons item items)
  have "releaseStockForOrder faults orderID i (item # items) products pid =
          map_option (\<lambda>p. p\<lparr>StockQuantity := StockQuantity p
              + (reserved_total items pid - unreleased_total faults (Suc i) items pid)\<rparr>)
            (snd (inventoryClient_ReleaseStock (faults i) products
                    (ProductId item) (Quantity item) orderID) pid)"
    by (simp add: Cons.IH)
  then show ?case
    by (cases "products pid")
       (auto simp: inventoryClient_ReleaseStock_table reserved_total_Cons)
qed

text \<open>
  A reservation loop that ends with an error has reserved the items before the failing
  one and no item after it, and the failing call has left the table as it was; that table
  is what \<open>CreateOrder\<close> returns with the error: no release is issued on this path.
\<close>

lemma reserve_loop_single_fail:
  assumes "reserve_loop faults orderID i [item] products = (Some err, products')"
  shows "products' = products"
proof (cases "faults i")
  case None
  with assms show ?thesis
    by (auto simp: inventoryClient_ReserveStock_def ReserveStock_def
             split: option.splits if_splits)
next
  case (Some cause)
  with assms show ?thesis by (simp add: inventoryClient_ReserveStock_def)
qed

lemma reserve_loop_Cons:
  "reserve_loop faults orderID i (item # items) products =
     (case reserve_loop faults orderID i [item] products of
        (Some err, products') \<Rightarrow> (Some err, products')
      | (None, products') \<Rightarrow> reserve_loop faults orderID (Suc i) items products')"
  by (simp split: prod.splits sum.splits)

lemma reserve_loop_Some_prefix:
  assumes "reserve_loop faults orderID i items products = (Some err, products')"
  shows "\<exists>k < length items.
           reserve_loop faults orderID i (take k items) products = (None, products')
         \<and> reserve_loop faults orderID (i + k) [items ! k] products' = (Some err, products')"
  using assms
proof (induction items arbitrary: i products)
  case Nil
  then show ?case by simp
next
  case (Cons item items)
  obtain r mid where first: "reserve_loop faults orderID i [item] products = (r, mid)"
    by (cases "reserve_loop faults orderID i [item] products")
  show ?case
  proof (cases r)
    case None
    with first Cons.prems
    have rest: "reserve_loop faults orderID (Suc i) items mid = (Some err, products')"
      by (simp only: reserve_loop_Cons [of faults orderID i item items products]
            prod.case option.case)
    from Cons.IH [OF rest] obtain k where k: "k < length items"
      and pre: "reserve_loop faults orderID (Suc i) (take k items) mid = (None, products')"
      and fail: "reserve_loop faults orderID (Suc i + k) [items ! k] products'
                   = (Some err, products')"
      by (elim exE conjE)
    have "reserve_loop faults orderID i (take (Suc k) (item # items)) products
            = (None, products')"
      using first None pre
      by (simp only: take_Suc_Cons
            reserve_loop_Cons [of faults orderID i item "take k items" products]
            prod.case option.case)
    moreover have "reserve_loop faults orderID (i + Suc k) [(item # items) ! Suc k] products'
                   = (Some err, products')"
      using fail by simp
    moreover have "Suc k < length (item # items)" using k by simp
    ultimately show ?thesis by blast
  next
    case (Some e)
    with first Cons.prems have e: "e = err" and mid: "mid = products'"
      by (simp_all only: reserve_loop_Cons [of faults orderID i item items products]
            prod.case option.case prod.inject option.inject)
    from first Some e mid
    have single: "reserve_loop faults orderID i [item] products = (Some err, products')"
      by simp
    then have same: "products' = products" by (rule reserve_loop_single_fail)
    have "reserve_loop faults orderID i (take 0 (item # items)) products = (None, products')"
      using same by simp
    moreover have "reserve_loop faults orderID (i + 0) [(item # items) ! 0] products'
                     = (Some err, products')"
      using single same by simp
    moreover have "0 < length (item # items)" by simp
    ultimately show ?thesis by blast
  qed
qed

lemma CreateOrder_reservation_failure:
  assumes "reserve_loop (reserve_fault env) (uuid_New env) 0 items (product_table s)
             = (Some err, products')"
  shows "CreateOrder ops env s customerID items = (Inl err, s\<lparr>product_table := products'\<rparr>)"
  using assms by (simp add: CreateOrder_def Let_def)

text \<open>
  C1, evaluated where the code departs from it. The order asks for two laptops and a
  thousand mice; there are a hundred mice. The reservation of the laptops succeeds, that
  of the mice is declined, and \<open>CreateOrder\<close> returns the error at once and stores no
  order, as the claim says; but it issues no release, and the two laptops stay reserved
  (48 left of 50), where the claim has them released.
\<close>

theorem CreateOrder_partial_reservation_not_released:
  "CreateOrder binary64_ops (test_env (1 / 2) delivered) test_system ''customer-123'' oversized_items =
     (Inl (InsufficientStockError ''product-2''
             ''Insufficient stock. Available: 100, Requested: 1000''),
      \<lparr>order_table = Map.empty,
       product_table =
         NewService_products(''product-1'' \<mapsto>
           \<lparr>product_Id = ''product-1'', product_Name = ''Laptop'',
            StockQuantity = 48, Price = binary64_round (99999 / 100)\<rparr>)\<rparr>)"
  by (simp add: CreateOrder_def Let_def test_env_def oversized_items_def test_system_def delivered_def
      NewService_products_def inventoryClient_ReserveStock_def ReserveStock_def binary64_ops_def
      fmt_d_def show_nat.simps digit_char_def)

text \<open>
  C2, as amended. If every reservation of \<open>CreateOrder\<close> succeeds and the payment call
  returns an error or a status other than SUCCESS, \<open>CreateOrder\<close> returns an error,
  stores no order, and attempts a release for every line item, whether or not an earlier
  release call failed: each product's stock ends at its value before the call less the
  quantities of the line items whose release call did not reach the ledger. So provided
  every release call reaches the ledger, every reserved quantity is given back and each
  product's stock is at its value before the call (the whole system state is). A release
  call that fails is logged and not retried: the quantity of its item stays reserved,
  which is where the claim as stated fails.
\<close>

theorem CreateOrder_payment_failure_compensates:
  assumes reserved:
      "fst (reserve_loop (reserve_fault env) (uuid_New env) 0 items (product_table s)) = None"
    and declined:
      "case paymentClient env
              \<lparr>pay_OrderId = uuid_New env, pay_CustomerId = customerID,
               Amount = total_loop ops (f_zero ops) items, Currency = ''USD'',
               PaymentMethod = ''credit_card''\<rparr> of
         Inl err \<Rightarrow> True
       | Inr paymentResp \<Rightarrow> pay_Status paymentResp \<noteq> PAYMENT_STATUS_SUCCESS"
  shows "fst (CreateOrder ops env s customerID items) =
           Inl (case paymentClient env
                       \<lparr>pay_OrderId = uuid_New env, pay_CustomerId = customerID,
                        Amount = total_loop ops (f_zero ops) items, Currency = ''USD'',
                        PaymentMethod = ''credit_card''\<rparr> of
                  Inl err \<Rightarrow> PaymentProcessingError err
                | Inr paymentResp \<Rightarrow> PaymentFailedError (pay_Message paymentResp))
         \<and> order_table (snd (CreateOrder ops env s customerID items)) = order_table s
         \<and> (\<forall>productID.
               product_table (snd (CreateOrder ops env s customerID items)) productID =
                 map_option
                   (\<lambda>product. product\<lparr>StockQuantity := StockQuantity product
                        - unreleased_total (release_fault env) 0 items productID\<rparr>)
                   (product_table s productID))
         \<and> ((\<forall>i < length items. release_fault env i = None)
              \<longrightarrow> snd (CreateOrder ops env s customerID items) = s)"
proof -
  obtain products' where loop:
    "reserve_loop (reserve_fault env) (uuid_New env) 0 items (product_table s) = (None, products')"
    using reserved
    by (cases "reserve_loop (reserve_fault env) (uuid_New env) 0 items (product_table s)") simp
  have run: "CreateOrder ops env s customerID items =
           (Inl (case paymentClient env
                        \<lparr>pay_OrderId = uuid_New env, pay_CustomerId = customerID,
                         Amount = total_loop ops (f_zero ops) items, Currency = ''USD'',
                         PaymentMethod = ''credit_card''\<rparr> of
                   Inl err \<Rightarrow> PaymentProcessingError err
                 | Inr paymentResp \<Rightarrow> PaymentFailedError (pay_Message paymentResp)),
            s\<lparr>product_table :=
                 releaseStockForOrder (release_fault env) (uuid_New env) 0 items products'\<rparr>)"
    using declined loop
    by (auto simp: CreateOrder_def Let_def split: sum.splits)
  have stock: "releaseStockForOrder (release_fault env) (uuid_New env) 0 items products' productID =
                 map_option
                   (\<lambda>product. product\<lparr>StockQuantity := StockQuantity product
                        - unreleased_total (release_fault env) 0 items productID\<rparr>)
                   (product_table s productID)" for productID
  proof -
    have "releaseStockForOrder (release_fault env) (uuid_New env) 0 items products' productID =
            map_option (\<lambda>p. p\<lparr>StockQuantity := StockQuantity p
                + (reserved_total items productID
                     - unreleased_total (release_fault env) 0 items productID)\<rparr>)
              (products' productID)"
      by (rule releaseStockForOrder_stock)
    also have "products' productID =
         map_option (\<lambda>p. p\<lparr>StockQuantity := StockQuantity p - reserved_total items productID\<rparr>)
           (product_table s productID)"
      using loop by (rule reserve_loop_None_table)
    finally show ?thesis
      by (cases "product_table s productID") simp_all
  qed
  have "releaseStockForOrder (release_fault env) (uuid_New env) 0 items products'
          = product_table s"
    if "\<forall>i < length items. release_fault env i = None"
  proof -
    from that have "\<forall>j < length items. release_fault env (0 + j) = None" by simp
    with loop show ?thesis by (rule release_after_reserve)
  qed
  then show ?thesis
    by (simp add: run stock)
qed

theorem CreateOrder_payment_failure_compensates_witness:
  "fst (reserve_loop (reserve_fault (test_env (19 / 20) delivered))
          (uuid_New (test_env (19 / 20) delivered)) 0 test_items
          (product_table test_system)) = None
   \<and> paymentClient (test_env (19 / 20) delivered)
        \<lparr>pay_OrderId = ''order-1'', pay_CustomerId = ''customer-123'',
         Amount = total_loop binary64_ops (f_zero binary64_ops) test_items, Currency = ''USD'',
         PaymentMethod = ''credit_card''\<rparr>
       = Inr \<lparr>PaymentId = ''payment-1'', pay_Status = PAYMENT_STATUS_FAILED,
               pay_Message = ''Payment declined by bank'',
               TransactionId = ''txn_1704067200''\<rparr>
   \<and> release_fault (test_env (19 / 20) delivered) 0 = None
   \<and> release_fault (test_env (19 / 20) delivered) 1 = None
   \<and> CreateOrder binary64_ops (test_env (19 / 20) delivered) test_system ''customer-123'' test_items
       = (Inl (PaymentFailedError ''Payment declined by bank''), test_system)
   \<and> fst (reserve_loop (reserve_fault (test_env (19 / 20) first_lost))
          (uuid_New (test_env (19 / 20) first_lost)) 0 test_items
          (product_table test_system)) = None
   \<and> release_fault (test_env (19 / 20) first_lost) 0 = Some ''context deadline exceeded''
   \<and> release_fault (test_env (19 / 20) first_lost) 1 = None
   \<and> fst (CreateOrder binary64_ops (test_env (19 / 20) first_lost) test_system
             ''customer-123'' test_items)
       = Inl (PaymentFailedError ''Payment declined by bank'')
   \<and> order_table (snd (CreateOrder binary64_ops (test_env (19 / 20) first_lost) test_system
             ''customer-123'' test_items)) = Map.empty
   \<and> map_option StockQuantity (product_table test_system ''product-1'') = Some 50
   \<and> map_option StockQuantity (product_table test_system ''product-2'') = Some 100
   \<and> map_option StockQuantity
         (product_table (snd (CreateOrder binary64_ops (test_env (19 / 20) first_lost)
            test_system ''customer-123'' test_items)) ''product-1'') = Some 48
   \<and> map_option StockQuantity
         (product_table (snd (CreateOrder binary64_ops (test_env (19 / 20) first_lost)
            test_system ''customer-123'' test_items)) ''product-2'') = Some 100"
proof -
  have h1: "fst (reserve_loop (reserve_fault (test_env (19 / 20) release_faults))
          (uuid_New (test_env (19 / 20) release_faults)) 0 test_items
          (product_table test_system)) = None" for release_faults
    by (simp add: test_env_def test_items_def test_system_def delivered_def
        NewService_products_def inventoryClient_ReserveStock_def ReserveStock_def)
  have pay: "paymentClient (test_env (19 / 20) release_faults)
        \<lparr>pay_OrderId = ''order-1'', pay_CustomerId = ''customer-123'',
         Amount = total_loop binary64_ops (f_zero binary64_ops) test_items, Currency = ''USD'',
         PaymentMethod = ''credit_card''\<rparr>
       = Inr \<lparr>PaymentId = ''payment-1'', pay_Status = PAYMENT_STATUS_FAILED,
               pay_Message = ''Payment declined by bank'',
               TransactionId = ''txn_1704067200''\<rparr>" for release_faults
    by (simp add: test_env_def paymentClient_ProcessPayment_def ProcessPayment_def
        success_threshold_def fmt_d_def show_nat.simps digit_char_def)
  have u: "uuid_New (test_env (19 / 20) release_faults) = ''order-1''" for release_faults
    by (simp add: test_env_def)
  have h2: "case paymentClient (test_env (19 / 20) release_faults)
              \<lparr>pay_OrderId = uuid_New (test_env (19 / 20) release_faults),
               pay_CustomerId = ''customer-123'',
               Amount = total_loop binary64_ops (f_zero binary64_ops) test_items,
               Currency = ''USD'', PaymentMethod = ''credit_card''\<rparr> of
         Inl err \<Rightarrow> True
       | Inr paymentResp \<Rightarrow> pay_Status paymentResp \<noteq> PAYMENT_STATUS_SUCCESS"
    for release_faults
    by (simp add: u pay)
  have h3: "\<forall>i < length test_items. release_fault (test_env (19 / 20) delivered) i = None"
    by (simp add: test_env_def delivered_def)
  have d0: "release_fault (test_env (19 / 20) delivered) 0 = None"
    and d1: "release_fault (test_env (19 / 20) delivered) 1 = None"
    by (simp_all add: test_env_def delivered_def)
  have restored: "CreateOrder binary64_ops (test_env (19 / 20) delivered) test_system
                   ''customer-123'' test_items
       = (Inl (PaymentFailedError ''Payment declined by bank''), test_system)"
    using CreateOrder_payment_failure_compensates [OF h1 [of delivered] h2 [of delivered]] h3
    by (intro prod_eqI) (simp_all add: u pay)
  have l0: "release_fault (test_env (19 / 20) first_lost) 0 = Some ''context deadline exceeded''"
    and l1: "release_fault (test_env (19 / 20) first_lost) 1 = None"
    by (simp_all add: test_env_def first_lost_def)
  note lost = CreateOrder_payment_failure_compensates [OF h1 [of first_lost] h2 [of first_lost]]
  have err: "fst (CreateOrder binary64_ops (test_env (19 / 20) first_lost) test_system
             ''customer-123'' test_items)
       = Inl (PaymentFailedError ''Payment declined by bank'')"
    using lost [THEN conjunct1] by (simp add: u pay)
  have none: "order_table (snd (CreateOrder binary64_ops (test_env (19 / 20) first_lost)
             test_system ''customer-123'' test_items)) = Map.empty"
    using lost [THEN conjunct2, THEN conjunct1] by (simp add: test_system_def)
  have s1: "map_option StockQuantity (product_table test_system ''product-1'') = Some 50"
    and s2: "map_option StockQuantity (product_table test_system ''product-2'') = Some 100"
    by (simp_all add: test_system_def NewService_products_def)
  have kept: "map_option StockQuantity
         (product_table (snd (CreateOrder binary64_ops (test_env (19 / 20) first_lost)
            test_system ''customer-123'' test_items)) ''product-1'') = Some 48"
    using lost [THEN conjunct2, THEN conjunct2, THEN conjunct1, rule_format, of "''product-1''"]
    by (simp add: test_system_def NewService_products_def test_env_def first_lost_def
        test_items_def)
  have back2: "map_option StockQuantity
         (product_table (snd (CreateOrder binary64_ops (test_env (19 / 20) first_lost)
            test_system ''customer-123'' test_items)) ''product-2'') = Some 100"
    using lost [THEN conjunct2, THEN conjunct2, THEN conjunct1, rule_format, of "''product-2''"]
    by (simp add: test_system_def NewService_products_def test_env_def first_lost_def
        test_items_def)
  show ?thesis
    by (intro conjI h1 [of delivered] h1 [of first_lost] pay [of delivered]
        d0 d1 restored l0 l1 err none s1 s2 kept back2)
qed

theorem CreateOrder_payment_failure_counterexample:
  "fst (reserve_loop (reserve_fault (test_env (19 / 20) deadline_exceeded))
          (uuid_New (test_env (19 / 20) deadline_exceeded)) 0 laptop_items
          (product_table test_system)) = None
   \<and> fst (CreateOrder binary64_ops (test_env (19 / 20) deadline_exceeded) test_system
             ''customer-123'' laptop_items)
       = Inl (PaymentFailedError ''Payment declined by bank'')
   \<and> StockQuantity (the (product_table test_system ''product-1'')) = 50
   \<and> StockQuantity (the (product_table
          (snd (CreateOrder binary64_ops (test_env (19 / 20) deadline_exceeded) test_system
                  ''customer-123'' laptop_items)) ''product-1'')) = 48"
  by (simp add: CreateOrder_def test_env_def laptop_items_def test_system_def delivered_def
      deadline_exceeded_def NewService_products_def inventoryClient_ReserveStock_def
      inventoryClient_ReleaseStock_def ReserveStock_def binary64_ops_def
      paymentClient_ProcessPayment_def ProcessPayment_def success_threshold_def)

section \<open>The orchestrator: the order that is stored\<close>





text \<open>
  The scenario of one line item with a payment that succeeds, evaluated: twice 999.99
  is computed without rounding and is the \<open>float64\<close> 1999.98.
\<close>

lemma laptop_total:
  "total_loop binary64_ops (f_zero binary64_ops) laptop_items = binary64_round (99999 / 50)"
  by (simp add: laptop_items_def binary64_ops_def f64_of_int32_def
      round_laptop_price round_twice_laptop_price round_laptop_total)






text \<open>
  C6. When every reservation succeeds and the payment call returns the status SUCCESS,
  \<open>CreateOrder\<close> stores the order in the order table with status PROCESSING and the
  \<open>UpdatedAt\<close> of the clock read at that moment, returns that order, and leaves the
  product table as the reservations made it: each stock is down by the quantity reserved
  and nothing is given back.
\<close>

theorem CreateOrder_success:
  assumes reserved:
      "fst (reserve_loop (reserve_fault env) (uuid_New env) 0 items (product_table s)) = None"
    and paid:
      "paymentClient env
         \<lparr>pay_OrderId = uuid_New env, pay_CustomerId = customerID,
          Amount = total_loop ops (f_zero ops) items, Currency = ''USD'',
          PaymentMethod = ''credit_card''\<rparr> = Inr paymentResp"
    and status: "pay_Status paymentResp = PAYMENT_STATUS_SUCCESS"
  shows "\<exists>order s'.
           CreateOrder ops env s customerID items = (Inr order, s')
         \<and> order = \<lparr>order_Id = uuid_New env, CustomerId = customerID, Items = items,
                     TotalAmount = total_loop ops (f_zero ops) items,
                     order_Status = ORDER_STATUS_PROCESSING,
                     CreatedAt = now_created env, UpdatedAt = now_processing env\<rparr>
         \<and> order_table s' = (order_table s)(uuid_New env \<mapsto> order)
         \<and> GetOrder (order_table s') (uuid_New env) = Inr order
         \<and> product_table s' =
             snd (reserve_loop (reserve_fault env) (uuid_New env) 0 items (product_table s))
         \<and> (\<forall>productID. product_table s' productID =
               map_option (\<lambda>p. p\<lparr>StockQuantity := StockQuantity p - reserved_total items productID\<rparr>)
                 (product_table s productID))"
proof -
  obtain products' where loop:
    "reserve_loop (reserve_fault env) (uuid_New env) 0 items (product_table s) = (None, products')"
    using reserved
    by (cases "reserve_loop (reserve_fault env) (uuid_New env) 0 items (product_table s)") simp
  have table: "products' productID =
               map_option (\<lambda>p. p\<lparr>StockQuantity := StockQuantity p - reserved_total items productID\<rparr>)
                 (product_table s productID)" for productID
    using loop by (rule reserve_loop_None_table)
  show ?thesis
    using loop paid status table
    by (simp add: CreateOrder_def Let_def GetOrder_def)
qed

theorem CreateOrder_success_witness:
  "fst (reserve_loop (reserve_fault (test_env (1 / 2) delivered))
          (uuid_New (test_env (1 / 2) delivered)) 0 laptop_items
          (product_table test_system)) = None
   \<and> paymentClient (test_env (1 / 2) delivered)
         \<lparr>pay_OrderId = uuid_New (test_env (1 / 2) delivered),
          pay_CustomerId = ''customer-123'',
          Amount = total_loop binary64_ops (f_zero binary64_ops) laptop_items, Currency = ''USD'',
          PaymentMethod = ''credit_card''\<rparr>
       = Inr \<lparr>PaymentId = ''payment-1'', pay_Status = PAYMENT_STATUS_SUCCESS,
               pay_Message = ''Payment processed successfully'',
               TransactionId = ''txn_1704067200''\<rparr>
   \<and> (\<exists>order s'.
         CreateOrder binary64_ops (test_env (1 / 2) delivered) test_system
           ''customer-123'' laptop_items = (Inr order, s')
         \<and> order_Status order = ORDER_STATUS_PROCESSING
         \<and> UpdatedAt order = ''2024-01-01T00:00:01Z''
         \<and> TotalAmount order = binary64_round (99999 / 50)
         \<and> order_table s' ''order-1'' = Some order
         \<and> GetOrder (order_table s') ''order-1'' = Inr order
         \<and> map_option StockQuantity (product_table test_system ''product-1'') = Some 50
         \<and> map_option StockQuantity (product_table s' ''product-1'') = Some 48)"
proof -
  have h1: "fst (reserve_loop (reserve_fault (test_env (1 / 2) delivered))
          (uuid_New (test_env (1 / 2) delivered)) 0 laptop_items
          (product_table test_system)) = None"
    by (simp add: test_env_def laptop_items_def test_system_def delivered_def
        NewService_products_def inventoryClient_ReserveStock_def ReserveStock_def)
  have h2: "paymentClient (test_env (1 / 2) delivered)
         \<lparr>pay_OrderId = uuid_New (test_env (1 / 2) delivered),
          pay_CustomerId = ''customer-123'',
          Amount = total_loop binary64_ops (f_zero binary64_ops) laptop_items, Currency = ''USD'',
          PaymentMethod = ''credit_card''\<rparr>
       = Inr \<lparr>PaymentId = ''payment-1'', pay_Status = PAYMENT_STATUS_SUCCESS,
               pay_Message = ''Payment processed successfully'',
               TransactionId = ''txn_1704067200''\<rparr>"
    by (simp add: test_env_def paymentClient_ProcessPayment_def ProcessPayment_def
        success_threshold_def fmt_d_def show_nat.simps digit_char_def)
  have h3: "pay_Status \<lparr>PaymentId = ''payment-1'', pay_Status = PAYMENT_STATUS_SUCCESS,
               pay_Message = ''Payment processed successfully'',
               TransactionId = ''txn_1704067200''\<rparr> = PAYMENT_STATUS_SUCCESS"
    by simp
  from CreateOrder_success [OF h1 h2 h3] obtain order s' where
    run: "CreateOrder binary64_ops (test_env (1 / 2) delivered) test_system
            ''customer-123'' laptop_items = (Inr order, s')"
    and order: "order = \<lparr>order_Id = uuid_New (test_env (1 / 2) delivered),
                     CustomerId = ''customer-123'', Items = laptop_items,
                     TotalAmount = total_loop binary64_ops (f_zero binary64_ops) laptop_items,
                     order_Status = ORDER_STATUS_PROCESSING,
                     CreatedAt = now_created (test_env (1 / 2) delivered),
                     UpdatedAt = now_processing (test_env (1 / 2) delivered)\<rparr>"
    and stored: "order_table s' = (order_table test_system)(uuid_New (test_env (1 / 2) delivered) \<mapsto> order)"
    and get: "GetOrder (order_table s') (uuid_New (test_env (1 / 2) delivered)) = Inr order"
    and stock: "\<forall>productID. product_table s' productID =
               map_option (\<lambda>p. p\<lparr>StockQuantity := StockQuantity p - reserved_total laptop_items productID\<rparr>)
                 (product_table test_system productID)"
    by blast
  have u: "uuid_New (test_env (1 / 2) delivered) = ''order-1''"
    by (simp add: test_env_def)
  have "order_Status order = ORDER_STATUS_PROCESSING"
    and "UpdatedAt order = ''2024-01-01T00:00:01Z''"
    and "TotalAmount order = binary64_round (99999 / 50)"
    using order by (simp_all add: test_env_def laptop_total)
  moreover have "order_table s' ''order-1'' = Some order"
    using stored by (simp add: u)
  moreover have "GetOrder (order_table s') ''order-1'' = Inr order"
    using get by (simp add: u)
  moreover have "map_option StockQuantity (product_table test_system ''product-1'') = Some 50"
    by (simp add: test_system_def NewService_products_def)
  moreover have "map_option StockQuantity (product_table s' ''product-1'') = Some 48"
    using stock
    by (simp add: test_system_def NewService_products_def reserved_total_def laptop_items_def)
  ultimately show ?thesis
    using h1 h2 run by blast
qed

section \<open>Status updates\<close>

text \<open>
  C8. \<open>UpdateOrderStatus\<close> on a stored order writes the new status over the old one,
  whatever the two are, sets \<open>UpdatedAt\<close> to the clock's reading, returns the updated
  order and changes no other order; on an unknown id it returns the not-found error and
  leaves the table as it is.
\<close>

theorem UpdateOrderStatus_outcomes:
  "(\<forall>order. orders orderID = Some order \<longrightarrow>
      UpdateOrderStatus now orders orderID status =
        (Inr (order\<lparr>order_Status := status, UpdatedAt := now\<rparr>),
         orders(orderID \<mapsto> order\<lparr>order_Status := status, UpdatedAt := now\<rparr>)))
   \<and> (orders orderID = None \<longrightarrow>
        UpdateOrderStatus now orders orderID status = (Inl (OrderNotFoundError orderID), orders))"
  by (simp add: UpdateOrderStatus_def Let_def)

theorem UpdateOrderStatus_outcomes_witness:
  "[''order-1'' \<mapsto>
      \<lparr>order_Id = ''order-1'', CustomerId = ''customer-123'', Items = laptop_items,
       TotalAmount = binary64_round (99999 / 50), order_Status = ORDER_STATUS_COMPLETED,
       CreatedAt = ''2024-01-01T00:00:00Z'', UpdatedAt = ''2024-01-01T00:00:01Z''\<rparr>]
     ''order-1''
   = Some \<lparr>order_Id = ''order-1'', CustomerId = ''customer-123'', Items = laptop_items,
       TotalAmount = binary64_round (99999 / 50), order_Status = ORDER_STATUS_COMPLETED,
       CreatedAt = ''2024-01-01T00:00:00Z'', UpdatedAt = ''2024-01-01T00:00:01Z''\<rparr>
   \<and> UpdateOrderStatus ''2024-01-02T00:00:00Z''
       [''order-1'' \<mapsto>
          \<lparr>order_Id = ''order-1'', CustomerId = ''customer-123'', Items = laptop_items,
           TotalAmount = binary64_round (99999 / 50), order_Status = ORDER_STATUS_COMPLETED,
           CreatedAt = ''2024-01-01T00:00:00Z'', UpdatedAt = ''2024-01-01T00:00:01Z''\<rparr>]
       ''order-1'' ORDER_STATUS_PENDING
     = (Inr \<lparr>order_Id = ''order-1'', CustomerId = ''customer-123'', Items = laptop_items,
             TotalAmount = binary64_round (99999 / 50), order_Status = ORDER_STATUS_PENDING,
             CreatedAt = ''2024-01-01T00:00:00Z'', UpdatedAt = ''2024-01-02T00:00:00Z''\<rparr>,
        [''order-1'' \<mapsto>
          \<lparr>order_Id = ''order-1'', CustomerId = ''customer-123'', Items = laptop_items,
           TotalAmount = binary64_round (99999 / 50), order_Status = ORDER_STATUS_PENDING,
           CreatedAt = ''2024-01-01T00:00:00Z'', UpdatedAt = ''2024-01-02T00:00:00Z''\<rparr>])
   \<and> (Map.empty :: float64 orders) ''order-2'' = None
   \<and> UpdateOrderStatus ''2024-01-02T00:00:00Z'' (Map.empty :: float64 orders)
         ''order-2'' ORDER_STATUS_COMPLETED
       = (Inl (OrderNotFoundError ''order-2''), Map.empty)"
  using UpdateOrderStatus_outcomes
      [of "[''order-1'' \<mapsto>
          \<lparr>order_Id = ''order-1'', CustomerId = ''customer-123'', Items = laptop_items,
           TotalAmount = binary64_round (99999 / 50), order_Status = ORDER_STATUS_COMPLETED,
           CreatedAt = ''2024-01-01T00:00:00Z'', UpdatedAt = ''2024-01-01T00:00:01Z''\<rparr>]"
          "''order-1''" "''2024-01-02T00:00:00Z''" ORDER_STATUS_PENDING]
    UpdateOrderStatus_outcomes
      [of "Map.empty :: float64 orders" "''order-2''" "''2024-01-02T00:00:00Z''"
          ORDER_STATUS_COMPLETED]
  by simp

section \<open>The payment stub\<close>

text \<open>
  C9. Every call of \<open>ProcessPayment\<close> returns a response and never an error. The
  response carries the generated payment id and transaction id and a status that is
  SUCCESS or FAILED; a declined payment is the response with status FAILED and the
  message of the bank's refusal.
\<close>

theorem ProcessPayment_outcomes:
  "ProcessPayment env req =
     Inr \<lparr>PaymentId = payment_uuid env,
          pay_Status = (if rand_Float32 env < success_threshold
                        then PAYMENT_STATUS_SUCCESS else PAYMENT_STATUS_FAILED),
          pay_Message = (if rand_Float32 env < success_threshold
                         then ''Payment processed successfully''
                         else ''Payment declined by bank''),
          TransactionId = ''txn_'' @ fmt_d (sint (payment_unix env))\<rparr>
   \<and> (\<forall>err. ProcessPayment env req \<noteq> Inl err)
   \<and> (\<exists>paymentResp. ProcessPayment env req = Inr paymentResp
         \<and> (pay_Status paymentResp = PAYMENT_STATUS_SUCCESS
              \<or> pay_Status paymentResp = PAYMENT_STATUS_FAILED))"
  by (simp add: ProcessPayment_def Let_def)

theorem ProcessPayment_outcomes_witness:
  "ProcessPayment
     \<lparr>payment_uuid = ''payment-1'', payment_unix = 1704067200, rand_Float32 = 19 / 20\<rparr>
     \<lparr>pay_OrderId = ''order-1'', pay_CustomerId = ''customer-123'',
      Amount = binary64_round (99999 / 50), Currency = ''USD'', PaymentMethod = ''credit_card''\<rparr>
   = Inr \<lparr>PaymentId = ''payment-1'', pay_Status = PAYMENT_STATUS_FAILED,
           pay_Message = ''Payment declined by bank'', TransactionId = ''txn_1704067200''\<rparr>
   \<and> ProcessPayment
     \<lparr>payment_uuid = ''payment-2'', payment_unix = 1704067201, rand_Float32 = 1 / 2\<rparr>
     \<lparr>pay_OrderId = ''order-2'', pay_CustomerId = ''customer-123'',
      Amount = binary64_round (99999 / 50), Currency = ''USD'', PaymentMethod = ''credit_card''\<rparr>
   = Inr \<lparr>PaymentId = ''payment-2'', pay_Status = PAYMENT_STATUS_SUCCESS,
           pay_Message = ''Payment processed successfully'',
           TransactionId = ''txn_1704067201''\<rparr>"
  using ProcessPayment_outcomes
      [of "\<lparr>payment_uuid = ''payment-1'', payment_unix = 1704067200, rand_Float32 = 19 / 20\<rparr>"
          "\<lparr>pay_OrderId = ''order-1'', pay_CustomerId = ''customer-123'',
            Amount = binary64_round (99999 / 50), Currency = ''USD'', PaymentMethod = ''credit_card''\<rparr>"]
    ProcessPayment_outcomes
      [of "\<lparr>payment_uuid = ''payment-2'', payment_unix = 1704067201, rand_Float32 = 1 / 2\<rparr>"
          "\<lparr>pay_OrderId = ''order-2'', pay_CustomerId = ''customer-123'',
            Amount = binary64_round (99999 / 50), Currency = ''USD'', PaymentMethod = ''credit_card''\<rparr>"]
  by (simp add: success_threshold_def fmt_d_def show_nat.simps digit_char_def)

end
